theory Spec2Isabelle
  imports Main "HOL-Library.Char_ord" "HOL-Library.List_Lexorder"
begin

section \<open>Data model\<close>

text \<open>
  The rows of the relational store, as declared in \<^verbatim>\<open>types/database.ts\<close> and the schema
  migration. Identifiers (uuid) and dates (ISO-8601 \<^verbatim>\<open>YYYY-MM-DD\<close>) are strings, as the client
  receives them. Quantities and prices are JavaScript numbers; they are modelled as
  unbounded integers, on which \<^verbatim>\<open>+\<close>, \<^verbatim>\<open>-\<close>, \<^verbatim>\<open>*\<close> and the comparisons of the source are
  exact (the doubles of the source agree with them below \<open>2 ^ 53\<close>). Only the columns the
  stock computation and the transfer form read or write are kept.
\<close>

datatype ProductType = Reagent | Consumable


record Product =
  pr_id :: string
  pr_code :: string
  pr_name :: string

record Invoice =
  inv_id :: string
  inv_supplier :: string
  inv_warehouse_id :: string
  inv_status :: string

record InvoiceItem =
  ii_invoice_id :: string
  ii_product_type :: ProductType
  ii_product_id :: string
  ii_quantity :: int
  ii_unit_price :: int
  ii_batch_date :: string

record Transfer =
  tr_id :: string
  tr_from_warehouse_id :: string
  tr_to_warehouse_id :: string
  tr_date :: string
  tr_total_amount :: int

record TransferItem =
  ti_transfer_id :: string
  ti_product_type :: ProductType
  ti_product_id :: string
  ti_batch_date :: string
  ti_quantity :: int
  ti_unit_price :: int
  ti_total_price :: int

record StockOut =
  so_id :: string
  so_warehouse_id :: string
  so_date :: string
  so_reason :: string
  so_total_amount :: int
  so_transfer_id :: "string option"

record StockOutItem =
  soi_stockout_id :: string
  soi_product_type :: ProductType
  soi_product_id :: string
  soi_batch_date :: string
  soi_quantity :: int
  soi_unit_price :: int
  soi_total_price :: int

text \<open>A ledger snapshot: the six tables the stock computation queries, in row order.\<close>

record Ledger =
  invoices :: "Invoice list"
  invoice_items :: "InvoiceItem list"
  transfers :: "Transfer list"
  transfer_items :: "TransferItem list"
  stock_out :: "StockOut list"
  stock_out_items :: "StockOutItem list"

text \<open>The result type \<^verbatim>\<open>StockCalculationResult\<close> and the element type of its \<^verbatim>\<open>batches\<close>.\<close>

record Batch =
  batch_date :: string
  quantity :: int
  unit_price :: int
  total_price :: int
  supplier :: string

record StockCalculationResult =
  totalQuantity :: int
  totalValue :: int
  batches :: "Batch list"


section \<open>JavaScript primitives used by the computation\<close>

text \<open>
  \<^verbatim>\<open>String(n)\<close> on an integer-valued number: the decimal digits, with a leading minus sign
  for a negative number. It is what the template literal of the bucket key applies to
  \<^verbatim>\<open>unit_price\<close>.
\<close>

definition digit_char :: "nat \<Rightarrow> char" where
  "digit_char n = ''0123456789'' ! (n mod 10)"

fun digits :: "nat \<Rightarrow> string" where
  "digits n = (if n < 10 then [digit_char n] else digits (n div 10) @ [digit_char (n mod 10)])"

declare digits.simps [simp del]

definition String_of_number :: "int \<Rightarrow> string" where
  "String_of_number i = (if i < 0 then CHR ''-'' # digits (nat (- i)) else digits (nat i))"

text \<open>
  A \<^verbatim>\<open>Map\<close> keeps its keys in insertion order; \<^verbatim>\<open>set\<close> on a present key replaces the value
  in place, on an absent key appends. It is an association list with distinct keys.
\<close>

fun Map_get :: "('k \<times> 'v) list \<Rightarrow> 'k \<Rightarrow> 'v option" where
  "Map_get [] k = None"
| "Map_get ((k', v) # m) k = (if k' = k then Some v else Map_get m k)"

definition Map_has :: "('k \<times> 'v) list \<Rightarrow> 'k \<Rightarrow> bool" where
  "Map_has m k = (Map_get m k \<noteq> None)"

fun Map_set :: "('k \<times> 'v) list \<Rightarrow> 'k \<Rightarrow> 'v \<Rightarrow> ('k \<times> 'v) list" where
  "Map_set [] k v = [(k, v)]"
| "Map_set ((k', v') # m) k v = (if k' = k then (k', v) # m else (k', v') # Map_set m k v)"

text \<open>A \<^verbatim>\<open>Set\<close> of strings, in insertion order.\<close>

definition Set_add :: "string list \<Rightarrow> string \<Rightarrow> string list" where
  "Set_add s x = (if x \<in> set s then s else s @ [x])"

text \<open>\<^verbatim>\<open>key.split('_')[0]\<close>: the part of the key before its first underscore.\<close>

definition split_first :: "string \<Rightarrow> string" where
  "split_first key = takeWhile (\<lambda>c. c \<noteq> CHR ''_'') key"

text \<open>
  \<^verbatim>\<open>a.localeCompare(b)\<close> on date strings. On strings of digits and hyphens of one shape
  the collation order is the order of the code units, which is what is modelled: the
  result is negative, zero or positive as \<open>a\<close> is before, equal to or after \<open>b\<close>.
\<close>

fun localeCompare :: "string \<Rightarrow> string \<Rightarrow> int" where
  "localeCompare [] [] = 0"
| "localeCompare [] (y # ys) = - 1"
| "localeCompare (x # xs) [] = 1"
| "localeCompare (x # xs) (y # ys) =
     (if of_char x < (of_char y :: nat) then - 1
      else if of_char y < (of_char x :: nat) then 1
      else localeCompare xs ys)"

text \<open>
  \<^verbatim>\<open>Array.prototype.sort\<close> with a comparator is stable: an element moves in front of
  another only when the comparator puts it strictly first.
\<close>

fun sort_insert :: "('a \<Rightarrow> 'a \<Rightarrow> int) \<Rightarrow> 'a \<Rightarrow> 'a list \<Rightarrow> 'a list" where
  "sort_insert cmp x [] = [x]"
| "sort_insert cmp x (y # ys) = (if cmp x y \<le> 0 then x # y # ys else y # sort_insert cmp x ys)"

definition Array_sort :: "('a \<Rightarrow> 'a \<Rightarrow> int) \<Rightarrow> 'a list \<Rightarrow> 'a list" where
  "Array_sort cmp xs = foldr (sort_insert cmp) xs []"


section \<open>The ledger queries\<close>

text \<open>
  Each query of \<^verbatim>\<open>calculateProductStockInWarehouse\<close> is a filter of one table. A snapshot
  answers every query, so the \<^verbatim>\<open>|| []\<close> fallbacks of the source are never taken.
\<close>

definition select_invoices :: "Ledger \<Rightarrow> string \<Rightarrow> Invoice list" where
  "select_invoices L warehouseId =
     filter (\<lambda>inv. inv_warehouse_id inv = warehouseId \<and> inv_status inv = ''active'') (invoices L)"

definition select_invoice_items ::
  "Ledger \<Rightarrow> ProductType \<Rightarrow> string \<Rightarrow> string list \<Rightarrow> InvoiceItem list" where
  "select_invoice_items L productType productId invoiceIds =
     filter (\<lambda>e. ii_product_type e = productType \<and> ii_product_id e = productId
                \<and> ii_invoice_id e \<in> set invoiceIds) (invoice_items L)"

definition select_transfers_to :: "Ledger \<Rightarrow> string \<Rightarrow> Transfer list" where
  "select_transfers_to L warehouseId =
     filter (\<lambda>t. tr_to_warehouse_id t = warehouseId) (transfers L)"

definition select_transfers_from :: "Ledger \<Rightarrow> string \<Rightarrow> Transfer list" where
  "select_transfers_from L warehouseId =
     filter (\<lambda>t. tr_from_warehouse_id t = warehouseId) (transfers L)"

definition select_stock_out :: "Ledger \<Rightarrow> string \<Rightarrow> StockOut list" where
  "select_stock_out L warehouseId =
     filter (\<lambda>s. so_warehouse_id s = warehouseId \<and> so_reason s \<noteq> ''transfer'') (stock_out L)"

definition select_transfer_items ::
  "Ledger \<Rightarrow> ProductType \<Rightarrow> string \<Rightarrow> string list \<Rightarrow> TransferItem list" where
  "select_transfer_items L productType productId transferIds =
     filter (\<lambda>t. ti_product_type t = productType \<and> ti_product_id t = productId
                \<and> ti_transfer_id t \<in> set transferIds) (transfer_items L)"

definition select_stock_out_items ::
  "Ledger \<Rightarrow> ProductType \<Rightarrow> string \<Rightarrow> string list \<Rightarrow> StockOutItem list" where
  "select_stock_out_items L productType productId stockOutIds =
     filter (\<lambda>x. soi_product_type x = productType \<and> soi_product_id x = productId
                \<and> soi_stockout_id x \<in> set stockOutIds) (stock_out_items L)"

text \<open>The local variables of the source that hold the fetched rows.\<close>

definition invoiceMap_of :: "Ledger \<Rightarrow> string \<Rightarrow> (string \<times> string) list" where
  "invoiceMap_of L warehouseId =
     fold (\<lambda>inv m. Map_set m (inv_id inv)
                      (if inv_supplier inv = '''' then '''' else inv_supplier inv))
          (select_invoices L warehouseId) []"

definition invoiceIds_of :: "Ledger \<Rightarrow> string \<Rightarrow> string list" where
  "invoiceIds_of L warehouseId = map inv_id (select_invoices L warehouseId)"

definition entries_of :: "Ledger \<Rightarrow> string \<Rightarrow> string \<Rightarrow> ProductType \<Rightarrow> InvoiceItem list" where
  "entries_of L warehouseId productId productType =
     (let invoiceIds = invoiceIds_of L warehouseId
      in if length invoiceIds > 0
         then select_invoice_items L productType productId invoiceIds else [])"

definition transferItemsIn_of ::
  "Ledger \<Rightarrow> string \<Rightarrow> string \<Rightarrow> ProductType \<Rightarrow> TransferItem list" where
  "transferItemsIn_of L warehouseId productId productType =
     (let transferInIds = map tr_id (select_transfers_to L warehouseId)
      in if length transferInIds > 0
         then select_transfer_items L productType productId transferInIds else [])"

definition stockOutItems_of ::
  "Ledger \<Rightarrow> string \<Rightarrow> string \<Rightarrow> ProductType \<Rightarrow> StockOutItem list" where
  "stockOutItems_of L warehouseId productId productType =
     (let stockOutIds = map so_id (select_stock_out L warehouseId)
      in if length stockOutIds > 0
         then select_stock_out_items L productType productId stockOutIds else [])"

definition transferItemsOut_of ::
  "Ledger \<Rightarrow> string \<Rightarrow> string \<Rightarrow> ProductType \<Rightarrow> TransferItem list" where
  "transferItemsOut_of L warehouseId productId productType =
     (let transferOutIds = map tr_id (select_transfers_from L warehouseId)
      in if length transferOutIds > 0
         then select_transfer_items L productType productId transferOutIds else [])"


section \<open>The stock computation\<close>

text \<open>The value type of \<^verbatim>\<open>batchMap\<close> and the template literal that builds its key.\<close>

record BatchAcc =
  acc_quantity :: int
  acc_price :: int
  acc_invoiceIds :: "string list"

definition batch_key :: "string \<Rightarrow> int \<Rightarrow> string" where
  "batch_key d p = d @ ''_'' @ String_of_number p"

text \<open>The body of the \<^verbatim>\<open>entries.forEach\<close> loop.\<close>

definition add_entry :: "InvoiceItem \<Rightarrow> (string \<times> BatchAcc) list \<Rightarrow> (string \<times> BatchAcc) list" where
  "add_entry entry batchMap =
     (let key = batch_key (ii_batch_date entry) (ii_unit_price entry);
          batchMap1 = (if \<not> Map_has batchMap key
                       then Map_set batchMap key
                              \<lparr>acc_quantity = 0, acc_price = ii_unit_price entry, acc_invoiceIds = []\<rparr>
                       else batchMap)
      in case Map_get batchMap1 key of
           None \<Rightarrow> batchMap1
         | Some current \<Rightarrow>
             Map_set batchMap1 key
               (current\<lparr>acc_quantity := acc_quantity current + ii_quantity entry,
                        acc_invoiceIds := Set_add (acc_invoiceIds current) (ii_invoice_id entry)\<rparr>))"

text \<open>The body of the \<^verbatim>\<open>transferItemsIn.forEach\<close> loop.\<close>

definition add_transfer :: "TransferItem \<Rightarrow> (string \<times> BatchAcc) list \<Rightarrow> (string \<times> BatchAcc) list" where
  "add_transfer transfer batchMap =
     (let key = batch_key (ti_batch_date transfer) (ti_unit_price transfer);
          batchMap1 = (if \<not> Map_has batchMap key
                       then Map_set batchMap key
                              \<lparr>acc_quantity = 0, acc_price = ti_unit_price transfer, acc_invoiceIds = []\<rparr>
                       else batchMap)
      in case Map_get batchMap1 key of
           None \<Rightarrow> batchMap1
         | Some current \<Rightarrow>
             Map_set batchMap1 key
               (current\<lparr>acc_quantity := acc_quantity current + ti_quantity transfer\<rparr>))"

definition batchMap_of :: "InvoiceItem list \<Rightarrow> TransferItem list \<Rightarrow> (string \<times> BatchAcc) list" where
  "batchMap_of entries transferItemsIn = fold add_transfer transferItemsIn (fold add_entry entries [])"

text \<open>\<^verbatim>\<open>exitMap.get(d) || 0\<close>: an absent date reads as 0.\<close>

definition get_or_zero :: "(string \<times> int) list \<Rightarrow> string \<Rightarrow> int" where
  "get_or_zero exitMap d = (case Map_get exitMap d of None \<Rightarrow> 0 | Some c \<Rightarrow> c)"

text \<open>The two loops that fill \<^verbatim>\<open>exitMap\<close>.\<close>

definition add_exit :: "string \<Rightarrow> int \<Rightarrow> (string \<times> int) list \<Rightarrow> (string \<times> int) list" where
  "add_exit d q exitMap =
     (let current = get_or_zero exitMap d
      in Map_set exitMap d (current + q))"

definition exitMap_of :: "StockOutItem list \<Rightarrow> TransferItem list \<Rightarrow> (string \<times> int) list" where
  "exitMap_of stockOutItems transferItemsOut =
     fold (\<lambda>exit. add_exit (ti_batch_date exit) (ti_quantity exit)) transferItemsOut
       (fold (\<lambda>exit. add_exit (soi_batch_date exit) (soi_quantity exit)) stockOutItems [])"

text \<open>
  The \<^verbatim>\<open>for (const [key, value] of batchMap)\<close> loop, with its three accumulators. The two
  versions of the function differ in how the supplier of a bucket is found, so the loop
  takes that step as \<open>resolve\<close>.
\<close>

fun emit_batches ::
  "(string list \<Rightarrow> string) \<Rightarrow> (string \<times> int) list \<Rightarrow> (string \<times> BatchAcc) list
     \<Rightarrow> Batch list \<times> int \<times> int \<Rightarrow> Batch list \<times> int \<times> int" where
  "emit_batches resolve exitMap [] acc = acc"
| "emit_batches resolve exitMap ((key, value) # rest) (bs, totalQ, totalV) =
     (let batchDate = split_first key;
          exitQty = get_or_zero exitMap batchDate;
          netQty = acc_quantity value - exitQty
      in if netQty > 0
         then emit_batches resolve exitMap rest
                (bs @ [\<lparr>batch_date = batchDate, quantity = netQty, unit_price = acc_price value,
                         total_price = netQty * acc_price value,
                         supplier = resolve (acc_invoiceIds value)\<rparr>],
                 totalQ + netQty, totalV + netQty * acc_price value)
         else emit_batches resolve exitMap rest (bs, totalQ, totalV))"

text \<open>Supplier of a bucket in the version that prefetches \<^verbatim>\<open>invoiceMap\<close>.\<close>

definition supplier_from_map :: "(string \<times> string) list \<Rightarrow> string list \<Rightarrow> string" where
  "supplier_from_map invoiceMap invoiceIds =
     (case invoiceIds of
        [] \<Rightarrow> ''''
      | i # _ \<Rightarrow> (case Map_get invoiceMap i of
                    None \<Rightarrow> ''''
                  | Some s \<Rightarrow> if s = '''' then '''' else s))"

text \<open>
  Supplier of a bucket in the version that queries the invoice again:
  \<^verbatim>\<open>.eq('id', invoiceIds[0]).maybeSingle()\<close> yields the row when exactly one matches and
  \<^verbatim>\<open>null\<close> otherwise.
\<close>

definition maybeSingle :: "'a list \<Rightarrow> 'a option" where
  "maybeSingle rows = (case rows of [r] \<Rightarrow> Some r | _ \<Rightarrow> None)"

definition supplier_from_query :: "Ledger \<Rightarrow> string list \<Rightarrow> string" where
  "supplier_from_query L invoiceIds =
     (case invoiceIds of
        [] \<Rightarrow> ''''
      | i # _ \<Rightarrow> (case maybeSingle (filter (\<lambda>inv. inv_id inv = i) (invoices L)) of
                    None \<Rightarrow> ''''
                  | Some invoice \<Rightarrow> inv_supplier invoice))"

definition sort_batches :: "Batch list \<Rightarrow> Batch list" where
  "sort_batches bs = Array_sort (\<lambda>a b. localeCompare (batch_date b) (batch_date a)) bs"

definition finish :: "Batch list \<times> int \<times> int \<Rightarrow> StockCalculationResult" where
  "finish acc = (case acc of (bs, totalQ, totalV) \<Rightarrow>
     \<lparr>totalQuantity = totalQ, totalValue = totalV, batches = sort_batches bs\<rparr>)"

text \<open>
  \<^verbatim>\<open>calculateProductStockInWarehouse\<close>, the version with the parallel fetches and the
  prefetched \<^verbatim>\<open>invoiceMap\<close>.
\<close>

definition calculateProductStockInWarehouse ::
  "Ledger \<Rightarrow> string \<Rightarrow> string \<Rightarrow> ProductType \<Rightarrow> StockCalculationResult" where
  "calculateProductStockInWarehouse L warehouseId productId productType =
     (let invoiceMap = invoiceMap_of L warehouseId;
          entries = entries_of L warehouseId productId productType;
          transferItemsIn = transferItemsIn_of L warehouseId productId productType;
          stockOutItems = stockOutItems_of L warehouseId productId productType;
          transferItemsOut = transferItemsOut_of L warehouseId productId productType;
          batchMap = batchMap_of entries transferItemsIn;
          exitMap = exitMap_of stockOutItems transferItemsOut
      in finish (emit_batches (supplier_from_map invoiceMap) exitMap batchMap ([], 0, 0)))"

text \<open>
  The second version of the same function: sequential fetches, and one invoice query per
  emitted batch.
\<close>

definition calculateProductStockInWarehouse_seq ::
  "Ledger \<Rightarrow> string \<Rightarrow> string \<Rightarrow> ProductType \<Rightarrow> StockCalculationResult" where
  "calculateProductStockInWarehouse_seq L warehouseId productId productType =
     (let entries = entries_of L warehouseId productId productType;
          transferItemsIn = transferItemsIn_of L warehouseId productId productType;
          stockOutItems = stockOutItems_of L warehouseId productId productType;
          transferItemsOut = transferItemsOut_of L warehouseId productId productType;
          batchMap = batchMap_of entries transferItemsIn;
          exitMap = exitMap_of stockOutItems transferItemsOut
      in finish (emit_batches (supplier_from_query L) exitMap batchMap ([], 0, 0)))"


section \<open>The ledger events behind one computation\<close>

text \<open>
  The rows one call fetches, read as signed events: an increase is a (batch date, unit
  price, quantity) triple from an invoice line of an active invoice of the warehouse or
  from a line of a transfer into it; a decrease is a (batch date, quantity) pair from a
  fetched stock-out line or from a line of a transfer out of the warehouse.
\<close>

definition increases :: "Ledger \<Rightarrow> string \<Rightarrow> string \<Rightarrow> ProductType \<Rightarrow> (string \<times> int \<times> int) list" where
  "increases L w p t =
     map (\<lambda>e. (ii_batch_date e, ii_unit_price e, ii_quantity e)) (entries_of L w p t)
     @ map (\<lambda>x. (ti_batch_date x, ti_unit_price x, ti_quantity x)) (transferItemsIn_of L w p t)"

definition decreases :: "Ledger \<Rightarrow> string \<Rightarrow> string \<Rightarrow> ProductType \<Rightarrow> (string \<times> int) list" where
  "decreases L w p t =
     map (\<lambda>x. (soi_batch_date x, soi_quantity x)) (stockOutItems_of L w p t)
     @ map (\<lambda>x. (ti_batch_date x, ti_quantity x)) (transferItemsOut_of L w p t)"

definition bucket_quantity :: "(string \<times> int \<times> int) list \<Rightarrow> string \<Rightarrow> int \<Rightarrow> int" where
  "bucket_quantity incs d p =
     sum_list (map (\<lambda>e. snd (snd e)) (filter (\<lambda>e. fst e = d \<and> fst (snd e) = p) incs))"

definition exit_total :: "(string \<times> int) list \<Rightarrow> string \<Rightarrow> int" where
  "exit_total decs d = sum_list (map snd (filter (\<lambda>e. fst e = d) decs))"

definition buckets :: "(string \<times> int \<times> int) list \<Rightarrow> (string \<times> int) set" where
  "buckets incs = (\<lambda>e. (fst e, fst (snd e))) ` set incs"

text \<open>A date as the store returns it has no underscore (it is \<^verbatim>\<open>YYYY-MM-DD\<close>).\<close>

definition date_ok :: "string \<Rightarrow> bool" where
  "date_ok d = (CHR ''_'' \<notin> set d)"

text \<open>Views of the intermediate maps used to state what the loops compute.\<close>

definition qty_at :: "(string \<times> BatchAcc) list \<Rightarrow> string \<Rightarrow> int" where
  "qty_at m k = (case Map_get m k of None \<Rightarrow> 0 | Some v \<Rightarrow> acc_quantity v)"

definition price_ok :: "(string \<times> BatchAcc) list \<Rightarrow> bool" where
  "price_ok m = (\<forall>kv \<in> set m. \<exists>d. fst kv = batch_key d (acc_price (snd kv)))"

definition emit_one ::
  "(string list \<Rightarrow> string) \<Rightarrow> (string \<times> int) list \<Rightarrow> string \<times> BatchAcc \<Rightarrow> Batch" where
  "emit_one resolve exitMap kv =
     \<lparr>batch_date = split_first (fst kv),
      quantity = acc_quantity (snd kv) - get_or_zero exitMap (split_first (fst kv)),
      unit_price = acc_price (snd kv),
      total_price =
        (acc_quantity (snd kv) - get_or_zero exitMap (split_first (fst kv))) * acc_price (snd kv),
      supplier = resolve (acc_invoiceIds (snd kv))\<rparr>"

definition emitted ::
  "(string list \<Rightarrow> string) \<Rightarrow> (string \<times> int) list \<Rightarrow> (string \<times> BatchAcc) list \<Rightarrow> Batch list" where
  "emitted resolve exitMap m =
     map (emit_one resolve exitMap)
       (filter (\<lambda>kv. 0 < quantity (emit_one resolve exitMap kv)) m)"

text \<open>The invoice identifiers collected in the buckets all lie in a given set.\<close>

definition ids_in :: "string set \<Rightarrow> (string \<times> BatchAcc) list \<Rightarrow> bool" where
  "ids_in S m = (\<forall>kv \<in> set m. set (acc_invoiceIds (snd kv)) \<subseteq> S)"





section \<open>The consistency sweep\<close>









section \<open>The transfer form\<close>

text \<open>A row of \<^verbatim>\<open>availableStock\<close>: a \<^verbatim>\<open>StockBatch\<close> with its selection state.\<close>

record TransferRow =
  row_product_id :: string
  row_product_code :: string
  row_product_name :: string
  row_product_type :: ProductType
  row_batch_date :: string
  row_supplier :: string
  row_quantity :: int
  row_unit_price :: int
  row_total_price :: int
  row_selected :: bool
  row_transfer_quantity :: int

text \<open>
  The rows \<^verbatim>\<open>loadWarehouseStock\<close> pushes for one product of the catalogue, from the stock
  computed for the source warehouse.
\<close>

definition stock_rows :: "Product \<Rightarrow> ProductType \<Rightarrow> StockCalculationResult \<Rightarrow> TransferRow list" where
  "stock_rows product ptype stock =
     map (\<lambda>batch.
            \<lparr>row_product_id = pr_id product, row_product_code = pr_code product,
             row_product_name = pr_name product, row_product_type = ptype,
             row_batch_date = batch_date batch,
             row_supplier = (if supplier batch = '''' then '''' else supplier batch),
             row_quantity = quantity batch, row_unit_price = unit_price batch,
             row_total_price = total_price batch,
             row_selected = False, row_transfer_quantity = 0\<rparr>)
         (filter (\<lambda>batch. quantity batch > 0) (batches stock))"

fun map_index :: "(nat \<Rightarrow> 'a \<Rightarrow> 'b) \<Rightarrow> nat \<Rightarrow> 'a list \<Rightarrow> 'b list" where
  "map_index f i [] = []"
| "map_index f i (x # xs) = f i x # map_index f (Suc i) xs"

definition toggleSelection :: "TransferRow list \<Rightarrow> nat \<Rightarrow> TransferRow list" where
  "toggleSelection availableStock index =
     map_index (\<lambda>i item.
        if i = index
        then item\<lparr>row_selected := \<not> row_selected item,
                  row_transfer_quantity := (if \<not> row_selected item then row_quantity item else 0)\<rparr>
        else item) 0 availableStock"

definition updateTransferQuantity :: "TransferRow list \<Rightarrow> nat \<Rightarrow> int \<Rightarrow> TransferRow list" where
  "updateTransferQuantity availableStock index qty =
     map_index (\<lambda>i item.
        if i = index then item\<lparr>row_transfer_quantity := min qty (row_quantity item)\<rparr> else item)
       0 availableStock"

text \<open>
  \<^verbatim>\<open>handleSubmit\<close>. The store's answers to the four inserts are an input: the identifier it
  gives the new transfer (\<open>None\<close> when the insert fails), whether the transfer lines are
  accepted, the identifier of the new stock-out (\<open>None\<close> when none comes back) and whether
  its lines are accepted. Every early \<^verbatim>\<open>return\<close> is an error value; on each of them the
  ledger is as before (a transfer whose lines were refused is deleted again).
\<close>

record InsertAnswers =
  new_transfer_id :: "string option"
  transfer_items_ok :: bool
  new_stockout_id :: "string option"
  stock_out_items_ok :: bool

datatype SubmitError =
  MissingData | SameWarehouse | ExceedsStock | NotPositive | TransferFailed | TransferItemsFailed

fun check_items :: "TransferRow list \<Rightarrow> SubmitError option" where
  "check_items [] = None"
| "check_items (item # rest) =
     (if row_transfer_quantity item > row_quantity item then Some ExceedsStock
      else if row_transfer_quantity item \<le> 0 then Some NotPositive
      else check_items rest)"

definition transferItems_of :: "string \<Rightarrow> TransferRow list \<Rightarrow> TransferItem list" where
  "transferItems_of transfer_id selectedItems =
     map (\<lambda>item.
            \<lparr>ti_transfer_id = transfer_id,
             ti_product_type = row_product_type item,
             ti_product_id = row_product_id item,
             ti_batch_date = row_batch_date item,
             ti_quantity = row_transfer_quantity item,
             ti_unit_price = row_unit_price item,
             ti_total_price = row_transfer_quantity item * row_unit_price item\<rparr>)
         selectedItems"

definition exitItems_of :: "TransferRow list \<Rightarrow> StockOutItem list" where
  "exitItems_of selectedItems =
     map (\<lambda>item.
            \<lparr>soi_stockout_id = '''',
             soi_product_type = row_product_type item,
             soi_product_id = row_product_id item,
             soi_batch_date = row_batch_date item,
             soi_quantity = row_transfer_quantity item,
             soi_unit_price = row_unit_price item,
             soi_total_price = row_transfer_quantity item * row_unit_price item\<rparr>)
         selectedItems"

definition handleSubmit ::
  "Ledger \<Rightarrow> string \<Rightarrow> string \<Rightarrow> string \<Rightarrow> TransferRow list \<Rightarrow> InsertAnswers
     \<Rightarrow> SubmitError + Ledger" where
  "handleSubmit L fromWarehouse toWarehouse date availableStock db =
     (let selectedItems =
            filter (\<lambda>item. row_selected item \<and> row_transfer_quantity item > 0) availableStock
      in if fromWarehouse = '''' \<or> toWarehouse = '''' \<or> length selectedItems = 0
         then Inl MissingData
         else if fromWarehouse = toWarehouse then Inl SameWarehouse
         else case check_items selectedItems of
           Some err \<Rightarrow> Inl err
         | None \<Rightarrow>
            (let totalAmount =
                   fold (\<lambda>item sum. sum + row_transfer_quantity item * row_unit_price item)
                     selectedItems 0
             in case new_transfer_id db of
                  None \<Rightarrow> Inl TransferFailed
                | Some transfer_id \<Rightarrow>
                   (let L1 = L\<lparr>transfers := transfers L @
                               [\<lparr>tr_id = transfer_id, tr_from_warehouse_id = fromWarehouse,
                                 tr_to_warehouse_id = toWarehouse, tr_date = date,
                                 tr_total_amount = totalAmount\<rparr>]\<rparr>;
                        transferItems = transferItems_of transfer_id selectedItems
                    in if \<not> transfer_items_ok db then Inl TransferItemsFailed
                       else
                        (let L2 = L1\<lparr>transfer_items := transfer_items L1 @ transferItems\<rparr>;
                             exitItems = exitItems_of selectedItems
                         in case new_stockout_id db of
                              None \<Rightarrow> Inr L2
                            | Some stockout_id \<Rightarrow>
                               (let L3 = L2\<lparr>stock_out := stock_out L2 @
                                           [\<lparr>so_id = stockout_id, so_warehouse_id = fromWarehouse,
                                             so_date = date, so_reason = ''transfer'',
                                             so_total_amount = totalAmount,
                                             so_transfer_id = Some transfer_id\<rparr>]\<rparr>
                                in if stock_out_items_ok db
                                   then Inr (L3\<lparr>stock_out_items := stock_out_items L3 @
                                               map (\<lambda>item. item\<lparr>soi_stockout_id := stockout_id\<rparr>)
                                                 exitItems\<rparr>)
                                   else Inr L3)))))"


section \<open>Example ledgers\<close>

text \<open>
  Warehouse \<open>W1\<close> holds one active invoice of supplier Acme with one line: product \<open>P1\<close>
  (a reagent), quantity 100, unit price 5, batch date 2024-01-10.
\<close>

definition scenario :: Ledger where
  "scenario =
     \<lparr>invoices = [\<lparr>inv_id = ''INV1'', inv_supplier = ''Acme'', inv_warehouse_id = ''W1'',
                    inv_status = ''active''\<rparr>],
      invoice_items = [\<lparr>ii_invoice_id = ''INV1'', ii_product_type = Reagent,
                         ii_product_id = ''P1'', ii_quantity = 100, ii_unit_price = 5,
                         ii_batch_date = ''2024-01-10''\<rparr>],
      transfers = [], transfer_items = [], stock_out = [], stock_out_items = []\<rparr>"

definition product_P1 :: Product where
  "product_P1 = \<lparr>pr_id = ''P1'', pr_code = ''R-001'', pr_name = ''Reagent one''\<rparr>"

definition answers_ok :: InsertAnswers where
  "answers_ok = \<lparr>new_transfer_id = Some ''T1'', transfer_items_ok = True,
                  new_stockout_id = Some ''SO1'', stock_out_items_ok = True\<rparr>"

text \<open>The form state after loading the stock of \<open>W1\<close>, ticking the row and typing 30.\<close>

definition scenario_rows :: "TransferRow list" where
  "scenario_rows =
     updateTransferQuantity
       (toggleSelection
          (stock_rows product_P1 Reagent
             (calculateProductStockInWarehouse scenario ''W1'' ''P1'' Reagent)) 0) 0 30"

text \<open>The ledger the scenario's transfer of 30 units to \<open>W2\<close>, dated 2024-01-15, leaves.\<close>

definition scenario_after :: Ledger where
  "scenario_after =
     \<lparr>invoices = [\<lparr>inv_id = ''INV1'', inv_supplier = ''Acme'', inv_warehouse_id = ''W1'',
                    inv_status = ''active''\<rparr>],
      invoice_items = [\<lparr>ii_invoice_id = ''INV1'', ii_product_type = Reagent,
                         ii_product_id = ''P1'', ii_quantity = 100, ii_unit_price = 5,
                         ii_batch_date = ''2024-01-10''\<rparr>],
      transfers = [\<lparr>tr_id = ''T1'', tr_from_warehouse_id = ''W1'', tr_to_warehouse_id = ''W2'',
                     tr_date = ''2024-01-15'', tr_total_amount = 150\<rparr>],
      transfer_items = [\<lparr>ti_transfer_id = ''T1'', ti_product_type = Reagent,
                          ti_product_id = ''P1'', ti_batch_date = ''2024-01-10'',
                          ti_quantity = 30, ti_unit_price = 5, ti_total_price = 150\<rparr>],
      stock_out = [\<lparr>so_id = ''SO1'', so_warehouse_id = ''W1'', so_date = ''2024-01-15'',
                     so_reason = ''transfer'', so_total_amount = 150,
                     so_transfer_id = Some ''T1''\<rparr>],
      stock_out_items = [\<lparr>soi_stockout_id = ''SO1'', soi_product_type = Reagent,
                           soi_product_id = ''P1'', soi_batch_date = ''2024-01-10'',
                           soi_quantity = 30, soi_unit_price = 5, soi_total_price = 150\<rparr>]\<rparr>"

text \<open>
  A larger ledger. Warehouse \<open>A\<close> has two active invoices and a returned one; product
  \<open>P1\<close> was received on 2024-01-10 at price 5 (10 units, then 4 more on the second invoice)
  and at price 6 (10 units), and on 2024-02-01 at price 5 (7 units). Three units dated
  2024-01-10 were consumed, and two units of that date went to warehouse \<open>B\<close> by a transfer,
  which also left its stock-out with reason \<open>transfer\<close>.
\<close>

definition sample :: Ledger where
  "sample =
     \<lparr>invoices =
        [\<lparr>inv_id = ''INV1'', inv_supplier = ''Acme'', inv_warehouse_id = ''A'',
          inv_status = ''active''\<rparr>,
         \<lparr>inv_id = ''INV2'', inv_supplier = ''Bolt'', inv_warehouse_id = ''A'',
          inv_status = ''active''\<rparr>,
         \<lparr>inv_id = ''INV3'', inv_supplier = ''Cato'', inv_warehouse_id = ''A'',
          inv_status = ''returned''\<rparr>],
      invoice_items =
        [\<lparr>ii_invoice_id = ''INV1'', ii_product_type = Reagent, ii_product_id = ''P1'',
          ii_quantity = 10, ii_unit_price = 5, ii_batch_date = ''2024-01-10''\<rparr>,
         \<lparr>ii_invoice_id = ''INV1'', ii_product_type = Reagent, ii_product_id = ''P1'',
          ii_quantity = 10, ii_unit_price = 6, ii_batch_date = ''2024-01-10''\<rparr>,
         \<lparr>ii_invoice_id = ''INV2'', ii_product_type = Reagent, ii_product_id = ''P1'',
          ii_quantity = 4, ii_unit_price = 5, ii_batch_date = ''2024-01-10''\<rparr>,
         \<lparr>ii_invoice_id = ''INV2'', ii_product_type = Reagent, ii_product_id = ''P1'',
          ii_quantity = 7, ii_unit_price = 5, ii_batch_date = ''2024-02-01''\<rparr>,
         \<lparr>ii_invoice_id = ''INV3'', ii_product_type = Reagent, ii_product_id = ''P1'',
          ii_quantity = 50, ii_unit_price = 5, ii_batch_date = ''2024-01-10''\<rparr>],
      transfers =
        [\<lparr>tr_id = ''T0'', tr_from_warehouse_id = ''A'', tr_to_warehouse_id = ''B'',
          tr_date = ''2024-01-20'', tr_total_amount = 10\<rparr>],
      transfer_items =
        [\<lparr>ti_transfer_id = ''T0'', ti_product_type = Reagent, ti_product_id = ''P1'',
          ti_batch_date = ''2024-01-10'', ti_quantity = 2, ti_unit_price = 5,
          ti_total_price = 10\<rparr>],
      stock_out =
        [\<lparr>so_id = ''SO1'', so_warehouse_id = ''A'', so_date = ''2024-01-12'',
          so_reason = ''consumption'', so_total_amount = 15, so_transfer_id = None\<rparr>,
         \<lparr>so_id = ''SO2'', so_warehouse_id = ''A'', so_date = ''2024-01-20'',
          so_reason = ''transfer'', so_total_amount = 10, so_transfer_id = Some ''T0''\<rparr>],
      stock_out_items =
        [\<lparr>soi_stockout_id = ''SO1'', soi_product_type = Reagent, soi_product_id = ''P1'',
          soi_batch_date = ''2024-01-10'', soi_quantity = 3, soi_unit_price = 5,
          soi_total_price = 15\<rparr>,
         \<lparr>soi_stockout_id = ''SO2'', soi_product_type = Reagent, soi_product_id = ''P1'',
          soi_batch_date = ''2024-01-10'', soi_quantity = 2, soi_unit_price = 5,
          soi_total_price = 10\<rparr>]\<rparr>"

text \<open>
  Warehouse \<open>W1\<close> received product \<open>P1\<close> twice on 2024-01-10, 10 units at price 5 and 10 units
  at price 6.
\<close>

definition two_prices :: Ledger where
  "two_prices =
     \<lparr>invoices = [\<lparr>inv_id = ''INV1'', inv_supplier = ''Acme'', inv_warehouse_id = ''W1'',
                    inv_status = ''active''\<rparr>],
      invoice_items =
        [\<lparr>ii_invoice_id = ''INV1'', ii_product_type = Reagent, ii_product_id = ''P1'',
          ii_quantity = 10, ii_unit_price = 5, ii_batch_date = ''2024-01-10''\<rparr>,
         \<lparr>ii_invoice_id = ''INV1'', ii_product_type = Reagent, ii_product_id = ''P1'',
          ii_quantity = 10, ii_unit_price = 6, ii_batch_date = ''2024-01-10''\<rparr>],
      transfers = [], transfer_items = [], stock_out = [], stock_out_items = []\<rparr>"


text \<open>
  Two variants of the ledger after the scenario's transfer: one without the stock-out the
  transfer form wrote, one in which that stock-out carries the reason \<open>consumption\<close>
  instead of \<open>transfer\<close>.
\<close>

definition scenario_after_without_stock_out :: Ledger where
  "scenario_after_without_stock_out = scenario_after\<lparr>stock_out := [], stock_out_items := []\<rparr>"

definition scenario_after_retagged :: Ledger where
  "scenario_after_retagged =
     scenario_after
       \<lparr>stock_out := [\<lparr>so_id = ''SO1'', so_warehouse_id = ''W1'', so_date = ''2024-01-15'',
                        so_reason = ''consumption'', so_total_amount = 150,
                        so_transfer_id = Some ''T1''\<rparr>]\<rparr>"

text \<open>
  The transfer form on the ledger \<open>two_prices\<close>: the stock of \<open>W1\<close> is loaded, the first
  row (the batch at price 5) is ticked and 4 is typed; the transfer to \<open>W2\<close> dated
  2024-01-15 then leaves the ledger \<open>two_prices_after\<close>.
\<close>

definition two_prices_rows :: "TransferRow list" where
  "two_prices_rows =
     updateTransferQuantity
       (toggleSelection
          (stock_rows product_P1 Reagent
             (calculateProductStockInWarehouse two_prices ''W1'' ''P1'' Reagent)) 0) 0 4"

definition two_prices_after :: Ledger where
  "two_prices_after =
     two_prices
       \<lparr>transfers := [\<lparr>tr_id = ''T1'', tr_from_warehouse_id = ''W1'', tr_to_warehouse_id = ''W2'',
                        tr_date = ''2024-01-15'', tr_total_amount = 20\<rparr>],
        transfer_items := [\<lparr>ti_transfer_id = ''T1'', ti_product_type = Reagent,
                             ti_product_id = ''P1'', ti_batch_date = ''2024-01-10'',
                             ti_quantity = 4, ti_unit_price = 5, ti_total_price = 20\<rparr>],
        stock_out := [\<lparr>so_id = ''SO1'', so_warehouse_id = ''W1'', so_date = ''2024-01-15'',
                        so_reason = ''transfer'', so_total_amount = 20,
                        so_transfer_id = Some ''T1''\<rparr>],
        stock_out_items := [\<lparr>soi_stockout_id = ''SO1'', soi_product_type = Reagent,
                              soi_product_id = ''P1'', soi_batch_date = ''2024-01-10'',
                              soi_quantity = 4, soi_unit_price = 5, soi_total_price = 20\<rparr>]\<rparr>"




section \<open>Lemmas about the primitives\<close>

subsection \<open>String_of_number\<close>

lemma digit_char_inj: "a < 10 \<Longrightarrow> b < 10 \<Longrightarrow> digit_char a = digit_char b \<Longrightarrow> a = b"
proof -
  assume a: "a < 10" and b: "b < 10" and e: "digit_char a = digit_char b"
  have d: "distinct ''0123456789''" by simp
  have "''0123456789'' ! a = ''0123456789'' ! b" using e a b by (simp add: digit_char_def)
  with d a b show "a = b" by (simp add: nth_eq_iff_index_eq)
qed

lemma digits_small: "n < 10 \<Longrightarrow> digits n = [digit_char n]"
  by (subst digits.simps) simp

lemma digits_large: "\<not> n < 10 \<Longrightarrow> digits n = digits (n div 10) @ [digit_char (n mod 10)]"
  by (subst digits.simps) simp

lemma digits_nonempty: "digits n \<noteq> []"
  by (cases "n < 10") (simp_all add: digits_small digits_large)

lemma digits_inj: "digits n = digits m \<Longrightarrow> n = m"
proof (induction n arbitrary: m rule: digits.induct)
  case (1 n)
  show ?case
  proof (cases "n < 10")
    case True
    note n = this
    show ?thesis
    proof (cases "m < 10")
      case True
      with n "1.prems" have "digit_char n = digit_char m" by (simp add: digits_small)
      with n True show ?thesis by (rule digit_char_inj)
    next
      case False
      with n "1.prems" have "digits (m div 10) = []" by (simp add: digits_small digits_large)
      with digits_nonempty show ?thesis by blast
    qed
  next
    case False
    note n = this
    show ?thesis
    proof (cases "m < 10")
      case True
      with n "1.prems" have "digits (n div 10) = []" by (simp add: digits_small digits_large)
      with digits_nonempty show ?thesis by blast
    next
      case m: False
      with n "1.prems" have e1: "digits (n div 10) = digits (m div 10)"
        and e2: "digit_char (n mod 10) = digit_char (m mod 10)" by (simp_all add: digits_large)
      from "1.IH"[OF n e1] have "n div 10 = m div 10" .
      moreover from e2 have "n mod 10 = m mod 10" by (intro digit_char_inj) simp_all
      ultimately show ?thesis by (metis div_mult_mod_eq)
    qed
  qed
qed

lemma digit_char_in: "digit_char n \<in> set ''0123456789''"
  unfolding digit_char_def by (rule nth_mem) simp

lemma digits_set: "set (digits n) \<subseteq> set ''0123456789''"
proof (induction n rule: digits.induct)
  case (1 n)
  show ?case
  proof (cases "n < 10")
    case True
    then show ?thesis using digit_char_in[of n] by (simp add: digits_small)
  next
    case False
    then show ?thesis using "1.IH"[OF False] digit_char_in[of "n mod 10"]
      by (simp add: digits_large)
  qed
qed

lemma digits_no_minus: "CHR ''-'' \<notin> set (digits n)"
  using digits_set[of n] by auto

lemma digits_no_underscore: "CHR ''_'' \<notin> set (digits n)"
  using digits_set[of n] by auto

lemma String_of_number_no_underscore: "CHR ''_'' \<notin> set (String_of_number i)"
  by (simp add: String_of_number_def digits_no_underscore)

lemma String_of_number_inj: "String_of_number a = String_of_number b \<Longrightarrow> a = b"
proof -
  assume e: "String_of_number a = String_of_number b"
  have nm: "CHR ''-'' # xs \<noteq> digits n" for xs n
    using digits_no_minus[of n] by (metis list.set_intros(1))
  show "a = b"
  proof (cases "a < 0")
    case True
    note a = this
    show ?thesis
    proof (cases "b < 0")
      case True
      with a e have "digits (nat (- a)) = digits (nat (- b))" by (simp add: String_of_number_def)
      then have "nat (- a) = nat (- b)" by (rule digits_inj)
      with a True show ?thesis by simp
    next
      case False
      with a e nm show ?thesis by (simp add: String_of_number_def)
    qed
  next
    case False
    note a = this
    show ?thesis
    proof (cases "b < 0")
      case True
      with a e nm[of "digits (nat (- b))" "nat a"] show ?thesis by (simp add: String_of_number_def)
    next
      case False
      with a e have "digits (nat a) = digits (nat b)" by (simp add: String_of_number_def)
      then have "nat a = nat b" by (rule digits_inj)
      with a False show ?thesis by simp
    qed
  qed
qed

subsection \<open>batch_key\<close>

lemma split_first_batch_key: "date_ok d \<Longrightarrow> split_first (batch_key d p) = d"
  by (auto simp: split_first_def batch_key_def date_ok_def takeWhile_tail)

lemma batch_key_inj: "batch_key d p = batch_key d' p' \<Longrightarrow> d = d' \<and> p = p'"
proof -
  assume e: "batch_key d p = batch_key d' p'"
  let ?s = "String_of_number p" and ?s' = "String_of_number p'"
  from e have "rev (d @ CHR ''_'' # ?s) = rev (d' @ CHR ''_'' # ?s')" by (simp add: batch_key_def)
  then have r: "rev ?s @ CHR ''_'' # rev d = rev ?s' @ CHR ''_'' # rev d'" by simp
  have t: "takeWhile (\<lambda>c. c \<noteq> CHR ''_'') (rev (String_of_number q) @ CHR ''_'' # ys) = rev (String_of_number q)" for q ys
    using String_of_number_no_underscore[of q] by (auto simp: takeWhile_tail)
  from r have "takeWhile (\<lambda>c. c \<noteq> CHR ''_'') (rev ?s @ CHR ''_'' # rev d) = takeWhile (\<lambda>c. c \<noteq> CHR ''_'') (rev ?s' @ CHR ''_'' # rev d')" by simp
  then have "rev ?s = rev ?s'" by (simp only: t)
  then have s: "?s = ?s'" by simp
  with e have "d = d'" by (simp add: batch_key_def)
  moreover from s have "p = p'" by (rule String_of_number_inj)
  ultimately show ?thesis by simp
qed

lemma batch_key_eq_iff: "batch_key d p = batch_key d' p' \<longleftrightarrow> d = d' \<and> p = p'"
  using batch_key_inj by blast

subsection \<open>Maps\<close>

lemma Map_get_Map_set: "Map_get (Map_set m k v) k' = (if k' = k then Some v else Map_get m k')"
  by (induction m k v rule: Map_set.induct) auto

lemma Map_get_None_iff: "Map_get m k = None \<longleftrightarrow> k \<notin> fst ` set m"
  by (induction m k rule: Map_get.induct) (auto simp: image_iff)

lemma keys_Map_set:
  "map fst (Map_set m k v) = (if k \<in> fst ` set m then map fst m else map fst m @ [k])"
  by (induction m k v rule: Map_set.induct) (auto simp: image_iff)

lemma set_Map_set_subset: "set (Map_set m k v) \<subseteq> insert (k, v) (set m)"
  by (induction m k v rule: Map_set.induct) auto

lemma Map_get_in_set: "Map_get m k = Some v \<Longrightarrow> (k, v) \<in> set m"
  by (induction m k rule: Map_get.induct) (auto split: if_splits)

lemma in_set_Map_get: "distinct (map fst m) \<Longrightarrow> (k, v) \<in> set m \<Longrightarrow> Map_get m k = Some v"
  by (induction m k rule: Map_get.induct) (auto simp: rev_image_eqI)

lemma filter_key_distinct:
  "distinct (map fst m) \<Longrightarrow>
   filter (\<lambda>kv. fst kv = k) m = (case Map_get m k of None \<Rightarrow> [] | Some v \<Rightarrow> [(k, v)])"
proof (induction m)
  case Nil
  then show ?case by simp
next
  case (Cons a m)
  obtain k' v' where a: "a = (k', v')" by (cases a)
  show ?case
  proof (cases "k' = k")
    case True
    with Cons.prems a have "k \<notin> fst ` set m" by auto
    then have "filter (\<lambda>kv. fst kv = k) m = []" by (auto simp: filter_empty_conv)
    with True a show ?thesis by simp
  next
    case False
    with Cons a show ?thesis by simp
  qed
qed

subsection \<open>Sorting\<close>



lemma set_sort_insert: "set (sort_insert cmp x ys) = insert x (set ys)"
  by (induction ys) auto

lemma set_Array_sort: "set (Array_sort cmp xs) = set xs"
  by (induction xs) (simp_all add: Array_sort_def set_sort_insert)

lemma length_filter_sort_insert:
  "length (filter P (sort_insert cmp x ys)) = length (filter P (x # ys))"
  by (induction ys) auto

lemma length_filter_Array_sort: "length (filter P (Array_sort cmp xs)) = length (filter P xs)"
  by (induction xs) (simp_all add: Array_sort_def length_filter_sort_insert)

lemma localeCompare_le: "localeCompare a b \<le> 0 \<longleftrightarrow> a \<le> b"
  by (induction a b rule: localeCompare.induct) (auto simp: less_char_def less_eq_char_def)

lemma sorted_sort_insert_desc:
  "sorted_wrt (\<lambda>a b. batch_date b \<le> batch_date a) ys \<Longrightarrow>
   sorted_wrt (\<lambda>a b. batch_date b \<le> batch_date a)
     (sort_insert (\<lambda>a b. localeCompare (batch_date b) (batch_date a)) x ys)"
proof (induction ys)
  case Nil
  then show ?case by simp
next
  case (Cons y ys)
  show ?case
  proof (cases "batch_date y \<le> batch_date x")
    case True
    with Cons.prems show ?thesis by (auto simp: localeCompare_le)
  next
    case False
    then have "batch_date x \<le> batch_date y" by simp
    with False Cons show ?thesis by (auto simp: localeCompare_le set_sort_insert)
  qed
qed

lemma sorted_sort_batches: "sorted_wrt (\<lambda>a b. batch_date b \<le> batch_date a) (sort_batches bs)"
  by (induction bs) (simp_all add: sort_batches_def Array_sort_def sorted_sort_insert_desc)

section \<open>Lemmas about the loops\<close>

subsection \<open>The emit loop\<close>

lemma emit_batches_eq:
  "emit_batches r E m (bs, q, v) =
     (bs @ emitted r E m,
      q + sum_list (map quantity (emitted r E m)),
      v + sum_list (map total_price (emitted r E m)))"
proof (induction m arbitrary: bs q v)
  case Nil
  then show ?case by (simp add: emitted_def)
next
  case (Cons a m)
  obtain k x where a: "a = (k, x)" by (cases a)
  show ?case
    unfolding a by (simp add: Cons.IH Let_def emitted_def emit_one_def)
qed

subsection \<open>batchMap\<close>

lemma add_entry_get:
  "Map_get (add_entry e m) k =
     (if k = batch_key (ii_batch_date e) (ii_unit_price e)
      then Some ((case Map_get m k of
                    None \<Rightarrow> \<lparr>acc_quantity = 0, acc_price = ii_unit_price e, acc_invoiceIds = []\<rparr>
                  | Some c \<Rightarrow> c)
                 \<lparr>acc_quantity := acc_quantity (case Map_get m k of
                    None \<Rightarrow> \<lparr>acc_quantity = 0, acc_price = ii_unit_price e, acc_invoiceIds = []\<rparr>
                  | Some c \<Rightarrow> c) + ii_quantity e,
                  acc_invoiceIds := Set_add (acc_invoiceIds (case Map_get m k of
                    None \<Rightarrow> \<lparr>acc_quantity = 0, acc_price = ii_unit_price e, acc_invoiceIds = []\<rparr>
                  | Some c \<Rightarrow> c)) (ii_invoice_id e)\<rparr>)
      else Map_get m k)"
  by (auto simp: add_entry_def Let_def Map_has_def Map_get_Map_set split: option.splits)

lemma add_transfer_get:
  "Map_get (add_transfer e m) k =
     (if k = batch_key (ti_batch_date e) (ti_unit_price e)
      then Some ((case Map_get m k of
                    None \<Rightarrow> \<lparr>acc_quantity = 0, acc_price = ti_unit_price e, acc_invoiceIds = []\<rparr>
                  | Some c \<Rightarrow> c)
                 \<lparr>acc_quantity := acc_quantity (case Map_get m k of
                    None \<Rightarrow> \<lparr>acc_quantity = 0, acc_price = ti_unit_price e, acc_invoiceIds = []\<rparr>
                  | Some c \<Rightarrow> c) + ti_quantity e\<rparr>)
      else Map_get m k)"
  by (auto simp: add_transfer_def Let_def Map_has_def Map_get_Map_set split: option.splits)

lemma keyset_Map_set: "fst ` set (Map_set m k v) = insert k (fst ` set m)"
  by (induction m k v rule: Map_set.induct) auto

lemma Map_has_iff: "Map_has m k \<longleftrightarrow> k \<in> fst ` set m"
  by (simp add: Map_has_def Map_get_None_iff)

lemma add_entry_keys:
  "map fst (add_entry e m) =
     (if batch_key (ii_batch_date e) (ii_unit_price e) \<in> fst ` set m then map fst m
      else map fst m @ [batch_key (ii_batch_date e) (ii_unit_price e)])"
  by (simp add: add_entry_def Let_def Map_has_iff Map_get_Map_set keys_Map_set keyset_Map_set
           split: option.splits)

lemma add_transfer_keys:
  "map fst (add_transfer e m) =
     (if batch_key (ti_batch_date e) (ti_unit_price e) \<in> fst ` set m then map fst m
      else map fst m @ [batch_key (ti_batch_date e) (ti_unit_price e)])"
  by (simp add: add_transfer_def Let_def Map_has_iff Map_get_Map_set keys_Map_set keyset_Map_set
           split: option.splits)

lemma add_entry_qty:
  "qty_at (add_entry e m) k =
     qty_at m k + (if k = batch_key (ii_batch_date e) (ii_unit_price e) then ii_quantity e else 0)"
  by (simp add: qty_at_def add_entry_get split: option.splits)

lemma add_transfer_qty:
  "qty_at (add_transfer e m) k =
     qty_at m k + (if k = batch_key (ti_batch_date e) (ti_unit_price e) then ti_quantity e else 0)"
  by (simp add: qty_at_def add_transfer_get split: option.splits)

lemma add_entry_distinct: "distinct (map fst m) \<Longrightarrow> distinct (map fst (add_entry e m))"
  by (simp add: add_entry_keys)

lemma add_transfer_distinct: "distinct (map fst m) \<Longrightarrow> distinct (map fst (add_transfer e m))"
  by (simp add: add_transfer_keys)

lemma price_ok_get:
  "distinct (map fst m) \<Longrightarrow>
   price_ok m \<longleftrightarrow> (\<forall>k v. Map_get m k = Some v \<longrightarrow> (\<exists>d. k = batch_key d (acc_price v)))"
  unfolding price_ok_def
  by (metis Map_get_in_set in_set_Map_get fst_conv snd_conv prod.collapse)

lemma add_entry_price_ok:
  assumes "distinct (map fst m)" "price_ok m"
  shows "price_ok (add_entry e m)"
proof -
  have d: "distinct (map fst (add_entry e m))" using assms(1) by (rule add_entry_distinct)
  from assms have h: "\<And>k v. Map_get m k = Some v \<Longrightarrow> \<exists>d. k = batch_key d (acc_price v)"
    by (simp add: price_ok_get)
  show ?thesis
    unfolding price_ok_get[OF d] add_entry_get
    by (auto split: if_splits option.splits dest: h)
qed

lemma add_transfer_price_ok:
  assumes "distinct (map fst m)" "price_ok m"
  shows "price_ok (add_transfer e m)"
proof -
  have d: "distinct (map fst (add_transfer e m))" using assms(1) by (rule add_transfer_distinct)
  from assms have h: "\<And>k v. Map_get m k = Some v \<Longrightarrow> \<exists>d. k = batch_key d (acc_price v)"
    by (simp add: price_ok_get)
  show ?thesis
    unfolding price_ok_get[OF d] add_transfer_get
    by (auto split: if_splits option.splits dest: h)
qed

lemma fold_add_entry:
  "distinct (map fst m) \<Longrightarrow> price_ok m \<Longrightarrow>
   distinct (map fst (fold add_entry es m)) \<and> price_ok (fold add_entry es m)
   \<and> fst ` set (fold add_entry es m)
       = fst ` set m \<union> (\<lambda>e. batch_key (ii_batch_date e) (ii_unit_price e)) ` set es
   \<and> (\<forall>k. qty_at (fold add_entry es m) k
          = qty_at m k + sum_list (map ii_quantity
              (filter (\<lambda>e. batch_key (ii_batch_date e) (ii_unit_price e) = k) es)))"
proof (induction es arbitrary: m)
  case Nil
  then show ?case by simp
next
  case (Cons e es)
  have d: "distinct (map fst (add_entry e m))" using Cons.prems(1) by (rule add_entry_distinct)
  have p: "price_ok (add_entry e m)" using Cons.prems by (rule add_entry_price_ok)
  have k: "fst ` set (add_entry e m) = insert (batch_key (ii_batch_date e) (ii_unit_price e)) (fst ` set m)"
    using add_entry_keys[of e m] by (metis (no_types, lifting) insert_absorb list.set_map set_append list.simps(15) Un_insert_right sup_bot.right_neutral empty_set)
  from Cons.IH[OF d p] show ?case
    by (auto simp: k add_entry_qty)
qed

lemma fold_add_transfer:
  "distinct (map fst m) \<Longrightarrow> price_ok m \<Longrightarrow>
   distinct (map fst (fold add_transfer es m)) \<and> price_ok (fold add_transfer es m)
   \<and> fst ` set (fold add_transfer es m)
       = fst ` set m \<union> (\<lambda>e. batch_key (ti_batch_date e) (ti_unit_price e)) ` set es
   \<and> (\<forall>k. qty_at (fold add_transfer es m) k
          = qty_at m k + sum_list (map ti_quantity
              (filter (\<lambda>e. batch_key (ti_batch_date e) (ti_unit_price e) = k) es)))"
proof (induction es arbitrary: m)
  case Nil
  then show ?case by simp
next
  case (Cons e es)
  have d: "distinct (map fst (add_transfer e m))" using Cons.prems(1) by (rule add_transfer_distinct)
  have p: "price_ok (add_transfer e m)" using Cons.prems by (rule add_transfer_price_ok)
  have k: "fst ` set (add_transfer e m) = insert (batch_key (ti_batch_date e) (ti_unit_price e)) (fst ` set m)"
    using add_transfer_keys[of e m] by (metis (no_types, lifting) insert_absorb list.set_map set_append list.simps(15) Un_insert_right sup_bot.right_neutral empty_set)
  from Cons.IH[OF d p] show ?case
    by (auto simp: k add_transfer_qty)
qed

subsection \<open>exitMap\<close>

lemma add_exit_get: "get_or_zero (add_exit d q m) d' = get_or_zero m d' + (if d' = d then q else 0)"
  by (simp add: add_exit_def get_or_zero_def Map_get_Map_set Let_def)

lemma fold_add_exit_so:
  "get_or_zero (fold (\<lambda>x. add_exit (soi_batch_date x) (soi_quantity x)) xs m) d
     = get_or_zero m d + sum_list (map soi_quantity (filter (\<lambda>x. soi_batch_date x = d) xs))"
  by (induction xs arbitrary: m) (auto simp: add_exit_get)

lemma fold_add_exit_ti:
  "get_or_zero (fold (\<lambda>x. add_exit (ti_batch_date x) (ti_quantity x)) xs m) d
     = get_or_zero m d + sum_list (map ti_quantity (filter (\<lambda>x. ti_batch_date x = d) xs))"
  by (induction xs arbitrary: m) (auto simp: add_exit_get)

lemma exitMap_of_get:
  "get_or_zero (exitMap_of sos tos) d
     = exit_total (map (\<lambda>x. (soi_batch_date x, soi_quantity x)) sos
                   @ map (\<lambda>x. (ti_batch_date x, ti_quantity x)) tos) d"
proof -
  have "get_or_zero [] d = 0" by (simp add: get_or_zero_def)
  then show ?thesis
    by (simp add: exitMap_of_def fold_add_exit_so fold_add_exit_ti exit_total_def
          filter_map comp_def)
qed

section \<open>The example ledgers, evaluated\<close>

lemma scenario_W1: "calculateProductStockInWarehouse scenario ''W1'' ''P1'' Reagent =
  \<lparr>totalQuantity = 100, totalValue = 500, batches = [\<lparr>batch_date = ''2024-01-10'', quantity = 100, unit_price = 5, total_price = 500, supplier = ''Acme''\<rparr>]\<rparr>"
  by code_simp


lemma scenario_submit: "handleSubmit scenario ''W1'' ''W2'' ''2024-01-15'' scenario_rows answers_ok = Inr scenario_after"
  by code_simp

lemma scenario_after_W1: "calculateProductStockInWarehouse scenario_after ''W1'' ''P1'' Reagent =
  \<lparr>totalQuantity = 70, totalValue = 350, batches = [\<lparr>batch_date = ''2024-01-10'', quantity = 70, unit_price = 5, total_price = 350, supplier = ''Acme''\<rparr>]\<rparr>"
  by code_simp

lemma scenario_after_W2: "calculateProductStockInWarehouse scenario_after ''W2'' ''P1'' Reagent =
  \<lparr>totalQuantity = 30, totalValue = 150, batches = [\<lparr>batch_date = ''2024-01-10'', quantity = 30, unit_price = 5, total_price = 150, supplier = ''''\<rparr>]\<rparr>"
  by code_simp

lemma sample_A: "calculateProductStockInWarehouse sample ''A'' ''P1'' Reagent =
  \<lparr>totalQuantity = 21, totalValue = 110,
   batches = [\<lparr>batch_date = ''2024-02-01'', quantity = 7, unit_price = 5, total_price = 35, supplier = ''Bolt''\<rparr>,
              \<lparr>batch_date = ''2024-01-10'', quantity = 9, unit_price = 5, total_price = 45, supplier = ''Acme''\<rparr>,
              \<lparr>batch_date = ''2024-01-10'', quantity = 5, unit_price = 6, total_price = 30, supplier = ''Acme''\<rparr>]\<rparr>"
  by code_simp

lemma sample_B: "calculateProductStockInWarehouse sample ''B'' ''P1'' Reagent =
  \<lparr>totalQuantity = 2, totalValue = 10,
   batches = [\<lparr>batch_date = ''2024-01-10'', quantity = 2, unit_price = 5, total_price = 10, supplier = ''''\<rparr>]\<rparr>"
  by code_simp

lemma sample_incs: "increases sample ''A'' ''P1'' Reagent =
   [(''2024-01-10'', 5, 10), (''2024-01-10'', 6, 10), (''2024-01-10'', 5, 4), (''2024-02-01'', 5, 7)]"
  by code_simp

lemma sample_decs: "decreases sample ''A'' ''P1'' Reagent = [(''2024-01-10'', 3), (''2024-01-10'', 2)]"
  by code_simp

section \<open>Results of the stock computation\<close>

lemma calc_eq:
  "calculateProductStockInWarehouse L w p t =
     (let bs = emitted (supplier_from_map (invoiceMap_of L w))
                 (exitMap_of (stockOutItems_of L w p t) (transferItemsOut_of L w p t))
                 (batchMap_of (entries_of L w p t) (transferItemsIn_of L w p t))
      in \<lparr>totalQuantity = sum_list (map quantity bs),
          totalValue = sum_list (map total_price bs),
          batches = sort_batches bs\<rparr>)"
  by (simp add: calculateProductStockInWarehouse_def Let_def emit_batches_eq finish_def)

lemma calc_seq_eq:
  "calculateProductStockInWarehouse_seq L w p t =
     (let bs = emitted (supplier_from_query L)
                 (exitMap_of (stockOutItems_of L w p t) (transferItemsOut_of L w p t))
                 (batchMap_of (entries_of L w p t) (transferItemsIn_of L w p t))
      in \<lparr>totalQuantity = sum_list (map quantity bs),
          totalValue = sum_list (map total_price bs),
          batches = sort_batches bs\<rparr>)"
  by (simp add: calculateProductStockInWarehouse_seq_def Let_def emit_batches_eq finish_def)



lemma set_sort_batches: "set (sort_batches bs) = set bs"
  by (simp add: sort_batches_def set_Array_sort)






subsection \<open>Sweep\<close>





subsection \<open>Order\<close>

text \<open>
  Claim C9. Whatever the ledger and the arguments, the returned \<open>batches\<close> are in
  descending order of \<open>batch_date\<close>, the dates compared as strings, character by
  character (the lexicographic order of the character codes).
\<close>

theorem batches_sorted_descending:
  "sorted_wrt (\<lambda>a b. batch_date b \<le> batch_date a)
     (batches (calculateProductStockInWarehouse L w p t))"
  by (simp add: calc_eq Let_def sorted_sort_batches)


theorem batches_sorted_descending_witness:
  "map batch_date (batches (calculateProductStockInWarehouse sample ''A'' ''P1'' Reagent))
     = [''2024-02-01'', ''2024-01-10'', ''2024-01-10'']
   \<and> sorted_wrt (\<lambda>a b. batch_date b \<le> batch_date a)
        (batches (calculateProductStockInWarehouse sample ''A'' ''P1'' Reagent))"
  using batches_sorted_descending [of sample "''A''" "''P1''" Reagent]
  by (simp add: sample_A)

subsection \<open>batchMap, from the events\<close>

lemma bucket_quantity_append:
  "bucket_quantity (xs @ ys) d p = bucket_quantity xs d p + bucket_quantity ys d p"
  by (simp add: bucket_quantity_def)

lemma batchMap_of_props:
  fixes es ts
  defines "incs \<equiv> map (\<lambda>e. (ii_batch_date e, ii_unit_price e, ii_quantity e)) es
                  @ map (\<lambda>x. (ti_batch_date x, ti_unit_price x, ti_quantity x)) ts"
  shows "distinct (map fst (batchMap_of es ts))"
    and "price_ok (batchMap_of es ts)"
    and "fst ` set (batchMap_of es ts) = (\<lambda>e. batch_key (fst e) (fst (snd e))) ` set incs"
    and "qty_at (batchMap_of es ts) (batch_key d p) = bucket_quantity incs d p"
proof -
  have e0: "distinct (map fst ([] :: (string \<times> BatchAcc) list))" "price_ok []"
    by (simp_all add: price_ok_def)
  note E = fold_add_entry[OF e0, of es]
  from E have e1: "distinct (map fst (fold add_entry es []))" "price_ok (fold add_entry es [])"
    by simp_all
  note T = fold_add_transfer[OF e1, of ts]
  show "distinct (map fst (batchMap_of es ts))" using T by (simp add: batchMap_of_def)
  show "price_ok (batchMap_of es ts)" using T by (simp add: batchMap_of_def)
  have "fst ` set (batchMap_of es ts)
        = (\<lambda>e. batch_key (ii_batch_date e) (ii_unit_price e)) ` set es
          \<union> (\<lambda>e. batch_key (ti_batch_date e) (ti_unit_price e)) ` set ts"
    using T E by (simp add: batchMap_of_def)
  then show "fst ` set (batchMap_of es ts) = (\<lambda>e. batch_key (fst e) (fst (snd e))) ` set incs"
    by (simp add: incs_def image_Un image_image)
  have q0: "qty_at [] k = 0" for k by (simp add: qty_at_def)
  have "qty_at (batchMap_of es ts) (batch_key d p)
        = sum_list (map ii_quantity (filter (\<lambda>e. ii_batch_date e = d \<and> ii_unit_price e = p) es))
          + sum_list (map ti_quantity (filter (\<lambda>e. ti_batch_date e = d \<and> ti_unit_price e = p) ts))"
    using T E by (simp add: batchMap_of_def q0 batch_key_eq_iff)
  then show "qty_at (batchMap_of es ts) (batch_key d p) = bucket_quantity incs d p"
    by (simp add: incs_def bucket_quantity_def filter_map comp_def)
qed

lemma batchMap_of_increases:
  "distinct (map fst (batchMap_of (entries_of L w p t) (transferItemsIn_of L w p t)))"
  "price_ok (batchMap_of (entries_of L w p t) (transferItemsIn_of L w p t))"
  "fst ` set (batchMap_of (entries_of L w p t) (transferItemsIn_of L w p t))
     = (\<lambda>dp. batch_key (fst dp) (snd dp)) ` buckets (increases L w p t)"
  "qty_at (batchMap_of (entries_of L w p t) (transferItemsIn_of L w p t)) (batch_key d q)
     = bucket_quantity (increases L w p t) d q"
  using batchMap_of_props[of "entries_of L w p t" "transferItemsIn_of L w p t"]
  by (simp_all add: increases_def buckets_def image_image)

lemma exitMap_of_decreases:
  "get_or_zero (exitMap_of (stockOutItems_of L w p t) (transferItemsOut_of L w p t)) d
     = exit_total (decreases L w p t) d"
  by (simp add: exitMap_of_get decreases_def)

subsection \<open>The emitted batches of one bucket\<close>

lemma emitted_at:
  assumes dist: "distinct (map fst m)"
    and po: "price_ok m"
    and dk: "\<forall>k \<in> fst ` set m. \<exists>d p. date_ok d \<and> k = batch_key d p"
  shows "filter (\<lambda>b. batch_date b = d \<and> unit_price b = p) (emitted r E m)
         = (case Map_get m (batch_key d p) of
              None \<Rightarrow> []
            | Some v \<Rightarrow> if 0 < acc_quantity v - get_or_zero E d \<and> date_ok d
                        then [emit_one r E (batch_key d p, v)] else [])"
proof -
  have key: "(batch_date (emit_one r E kv) = d \<and> unit_price (emit_one r E kv) = p)
             \<longleftrightarrow> (fst kv = batch_key d p \<and> date_ok d)" if kv: "kv \<in> set m" for kv
  proof -
    from dk kv obtain d' p' where d': "date_ok d'" and k: "fst kv = batch_key d' p'" by force
    from po kv obtain d'' where "fst kv = batch_key d'' (acc_price (snd kv))"
      by (auto simp: price_ok_def)
    with k have p': "acc_price (snd kv) = p'" by (simp add: batch_key_eq_iff)
    have "batch_date (emit_one r E kv) = d'" "unit_price (emit_one r E kv) = p'"
      using d' k p' by (simp_all add: emit_one_def split_first_batch_key)
    then show ?thesis using k d' by (auto simp: batch_key_eq_iff)
  qed
  have "filter (\<lambda>b. batch_date b = d \<and> unit_price b = p) (emitted r E m)
        = map (emit_one r E)
            (filter (\<lambda>kv. 0 < quantity (emit_one r E kv) \<and> date_ok d)
               (filter (\<lambda>kv. fst kv = batch_key d p) m))"
    unfolding emitted_def filter_map comp_def filter_filter
    by (rule arg_cong[where f = "map (emit_one r E)"], rule filter_cong) (auto simp: key)
  also have "\<dots> = (case Map_get m (batch_key d p) of
              None \<Rightarrow> []
            | Some v \<Rightarrow> if 0 < acc_quantity v - get_or_zero E d \<and> date_ok d
                        then [emit_one r E (batch_key d p, v)] else [])"
    by (auto simp: filter_key_distinct[OF dist] emit_one_def split_first_batch_key
             split: option.splits)
  finally show ?thesis .
qed

lemma batches_at:
  assumes "\<forall>e \<in> set (increases L w pid pt). date_ok (fst e)"
  shows "map quantity (filter (\<lambda>b. batch_date b = d \<and> unit_price b = p)
           (emitted r (exitMap_of (stockOutItems_of L w pid pt) (transferItemsOut_of L w pid pt))
              (batchMap_of (entries_of L w pid pt) (transferItemsIn_of L w pid pt))))
         = (if (d, p) \<in> buckets (increases L w pid pt)
               \<and> 0 < bucket_quantity (increases L w pid pt) d p - exit_total (decreases L w pid pt) d
            then [bucket_quantity (increases L w pid pt) d p - exit_total (decreases L w pid pt) d]
            else [])"
proof -
  let ?m = "batchMap_of (entries_of L w pid pt) (transferItemsIn_of L w pid pt)"
  let ?E = "exitMap_of (stockOutItems_of L w pid pt) (transferItemsOut_of L w pid pt)"
  note P = batchMap_of_increases[of L w pid pt]
  have dk: "\<forall>k \<in> fst ` set ?m. \<exists>d p. date_ok d \<and> k = batch_key d p"
    using assms unfolding P(3) buckets_def by auto
  have mem: "Map_get ?m (batch_key d p) = None \<longleftrightarrow> (d, p) \<notin> buckets (increases L w pid pt)"
    unfolding Map_get_None_iff P(3) by (auto simp: batch_key_eq_iff image_iff)
  have dok: "(d, p) \<in> buckets (increases L w pid pt) \<Longrightarrow> date_ok d"
    using assms by (auto simp: buckets_def)
  have q: "Map_get ?m (batch_key d p) = Some v \<Longrightarrow>
           acc_quantity v = bucket_quantity (increases L w pid pt) d p" for v
    using P(4)[of d p] by (simp add: qty_at_def)
  show ?thesis
    unfolding emitted_at[OF P(1) P(2) dk] exitMap_of_decreases
    using mem dok q
    by (cases "Map_get ?m (batch_key d p)") (auto simp: emit_one_def exitMap_of_decreases split_first_batch_key)
qed

lemma short_lists_eq:
  "length xs = length ys \<Longrightarrow> set xs = set ys \<Longrightarrow> length ys \<le> 1 \<Longrightarrow> xs = ys"
  by (cases xs; cases ys) auto

lemma filter_sort_batches_single:
  assumes "length (filter P bs) \<le> 1"
  shows "filter P (sort_batches bs) = filter P bs"
proof (rule short_lists_eq)
  show "length (filter P (sort_batches bs)) = length (filter P bs)"
    by (simp add: sort_batches_def length_filter_Array_sort)
  show "set (filter P (sort_batches bs)) = set (filter P bs)"
    by (simp add: set_sort_batches)
  show "length (filter P bs) \<le> 1" by (rule assms)
qed

lemma calc_batches_at:
  assumes "\<forall>e \<in> set (increases L w pid pt). date_ok (fst e)"
  shows "map quantity (filter (\<lambda>b. batch_date b = d \<and> unit_price b = p)
           (batches (calculateProductStockInWarehouse L w pid pt)))
         = (if (d, p) \<in> buckets (increases L w pid pt)
               \<and> 0 < bucket_quantity (increases L w pid pt) d p - exit_total (decreases L w pid pt) d
            then [bucket_quantity (increases L w pid pt) d p - exit_total (decreases L w pid pt) d]
            else [])"
proof -
  let ?bs = "emitted (supplier_from_map (invoiceMap_of L w))
               (exitMap_of (stockOutItems_of L w pid pt) (transferItemsOut_of L w pid pt))
               (batchMap_of (entries_of L w pid pt) (transferItemsIn_of L w pid pt))"
  let ?P = "\<lambda>b. batch_date b = d \<and> unit_price b = p"
  note B = batches_at[OF assms, of d p "supplier_from_map (invoiceMap_of L w)"]
  have "length (map quantity (filter ?P ?bs)) \<le> 1" unfolding B by simp
  then have "length (filter ?P ?bs) \<le> 1" by simp
  then have "filter ?P (sort_batches ?bs) = filter ?P ?bs" by (rule filter_sort_batches_single)
  moreover have "batches (calculateProductStockInWarehouse L w pid pt) = sort_batches ?bs"
    by (simp add: calc_eq Let_def)
  ultimately show ?thesis using B by simp
qed

lemma calc_batch_quantity:
  assumes ok: "\<forall>e \<in> set (increases L w pid pt). date_ok (fst e)"
    and b: "b \<in> set (batches (calculateProductStockInWarehouse L w pid pt))"
  shows "(batch_date b, unit_price b) \<in> buckets (increases L w pid pt)
         \<and> quantity b = bucket_quantity (increases L w pid pt) (batch_date b) (unit_price b)
                        - exit_total (decreases L w pid pt) (batch_date b)"
proof -
  let ?P = "\<lambda>x. batch_date x = batch_date b \<and> unit_price x = unit_price b"
  let ?f = "filter ?P (batches (calculateProductStockInWarehouse L w pid pt))"
  from b have m: "b \<in> set ?f" by simp
  then have "?f \<noteq> []" by (metis empty_iff list.set(1))
  then have ne: "map quantity ?f \<noteq> []" by simp
  note C = calc_batches_at[OF ok, of "batch_date b" "unit_price b"]
  from ne C have c: "(batch_date b, unit_price b) \<in> buckets (increases L w pid pt)"
    and q: "map quantity ?f = [bucket_quantity (increases L w pid pt) (batch_date b) (unit_price b)
                        - exit_total (decreases L w pid pt) (batch_date b)]"
    by (auto split: if_splits)
  from q obtain x where x: "?f = [x]" by (cases ?f) auto
  with m have "b = x" by simp
  with x q c show ?thesis by simp
qed

text \<open>
  Claim C3. The decrease accumulator is keyed by batch date alone: its entry for a date
  is the sum of the quantities of all fetched stock-out lines and all transfer-out lines
  with that date (these rows are fetched without a price). From every bucket (batch date,
  unit price) that full total of the bucket's date is subtracted: every returned batch
  has the quantity of its bucket minus the whole decrease total of its date, and every
  bucket whose difference is positive is returned with that quantity. So two buckets of
  one date with different prices are each reduced by the same total. (Batch dates are
  dates as the store returns them, without an underscore.)
\<close>

theorem decrease_total_of_date_subtracted_from_every_bucket:
  assumes "\<forall>e \<in> set (increases L w pid pt). date_ok (fst e)"
  shows "get_or_zero (exitMap_of (stockOutItems_of L w pid pt) (transferItemsOut_of L w pid pt)) d
           = sum_list (map soi_quantity
                (filter (\<lambda>x. soi_batch_date x = d) (stockOutItems_of L w pid pt)))
             + sum_list (map ti_quantity
                (filter (\<lambda>x. ti_batch_date x = d) (transferItemsOut_of L w pid pt)))
         \<and> exit_total (decreases L w pid pt) d
           = get_or_zero (exitMap_of (stockOutItems_of L w pid pt) (transferItemsOut_of L w pid pt)) d
         \<and> (\<forall>b \<in> set (batches (calculateProductStockInWarehouse L w pid pt)).
               quantity b = bucket_quantity (increases L w pid pt) (batch_date b) (unit_price b)
                            - exit_total (decreases L w pid pt) (batch_date b))
         \<and> ((d, p) \<in> buckets (increases L w pid pt)
              \<and> 0 < bucket_quantity (increases L w pid pt) d p - exit_total (decreases L w pid pt) d
             \<longrightarrow> (\<exists>b \<in> set (batches (calculateProductStockInWarehouse L w pid pt)).
                    batch_date b = d \<and> unit_price b = p
                    \<and> quantity b = bucket_quantity (increases L w pid pt) d p
                                   - exit_total (decreases L w pid pt) d))"
proof -
  have 1: "get_or_zero (exitMap_of (stockOutItems_of L w pid pt) (transferItemsOut_of L w pid pt)) d
           = sum_list (map soi_quantity
                (filter (\<lambda>x. soi_batch_date x = d) (stockOutItems_of L w pid pt)))
             + sum_list (map ti_quantity
                (filter (\<lambda>x. ti_batch_date x = d) (transferItemsOut_of L w pid pt)))"
    by (simp add: exitMap_of_get exit_total_def filter_map comp_def)
  have 2: "exit_total (decreases L w pid pt) d
           = get_or_zero (exitMap_of (stockOutItems_of L w pid pt) (transferItemsOut_of L w pid pt)) d"
    by (simp add: exitMap_of_decreases)
  have 3: "\<forall>b \<in> set (batches (calculateProductStockInWarehouse L w pid pt)).
               quantity b = bucket_quantity (increases L w pid pt) (batch_date b) (unit_price b)
                            - exit_total (decreases L w pid pt) (batch_date b)"
    using calc_batch_quantity[OF assms] by blast
  have 4: "\<exists>b \<in> set (batches (calculateProductStockInWarehouse L w pid pt)).
                    batch_date b = d \<and> unit_price b = p
                    \<and> quantity b = bucket_quantity (increases L w pid pt) d p
                                   - exit_total (decreases L w pid pt) d"
    if h: "(d, p) \<in> buckets (increases L w pid pt)
              \<and> 0 < bucket_quantity (increases L w pid pt) d p - exit_total (decreases L w pid pt) d"
  proof -
    let ?f = "filter (\<lambda>b. batch_date b = d \<and> unit_price b = p)
                (batches (calculateProductStockInWarehouse L w pid pt))"
    from h calc_batches_at[OF assms, of d p]
    have q: "map quantity ?f = [bucket_quantity (increases L w pid pt) d p
                                   - exit_total (decreases L w pid pt) d]" by simp
    then obtain x where x: "?f = [x]" by (cases ?f) auto
    then have "x \<in> set ?f" by simp
    then have "x \<in> set (batches (calculateProductStockInWarehouse L w pid pt))"
      "batch_date x = d" "unit_price x = p" by simp_all
    moreover from q x have "quantity x = bucket_quantity (increases L w pid pt) d p
                                   - exit_total (decreases L w pid pt) d" by simp
    ultimately show ?thesis by blast
  qed
  from 1 2 3 4 show ?thesis by blast
qed

lemma sample_dates_ok: "\<forall>e \<in> set (increases sample ''A'' ''P1'' Reagent). date_ok (fst e)"
  by (simp add: sample_incs date_ok_def)

theorem decrease_total_of_date_subtracted_from_every_bucket_witness:
  "list_all (\<lambda>e. date_ok (fst e)) (increases sample ''A'' ''P1'' Reagent)
   \<and> get_or_zero (exitMap_of (stockOutItems_of sample ''A'' ''P1'' Reagent)
                    (transferItemsOut_of sample ''A'' ''P1'' Reagent)) ''2024-01-10'' = 3 + 2
   \<and> bucket_quantity (increases sample ''A'' ''P1'' Reagent) ''2024-01-10'' 5 = 14
   \<and> bucket_quantity (increases sample ''A'' ''P1'' Reagent) ''2024-01-10'' 6 = 10
   \<and> map (\<lambda>b. (batch_date b, unit_price b, quantity b))
        (batches (calculateProductStockInWarehouse sample ''A'' ''P1'' Reagent))
      = [(''2024-02-01'', 5, 7), (''2024-01-10'', 5, 14 - 5), (''2024-01-10'', 6, 10 - 5)]"
  using decrease_total_of_date_subtracted_from_every_bucket
          [OF sample_dates_ok, of "''2024-01-10''" 6]
  by (simp add: sample_A sample_incs sample_decs bucket_quantity_def exit_total_def date_ok_def)






subsection \<open>The two versions\<close>

lemma fold_Map_set_other:
  "k \<notin> f ` set xs \<Longrightarrow> Map_get (fold (\<lambda>x m. Map_set m (f x) (g x)) xs m0) k = Map_get m0 k"
  by (induction xs arbitrary: m0) (auto simp: Map_get_Map_set)

lemma fold_Map_set_get:
  "distinct (map f xs) \<Longrightarrow> x \<in> set xs \<Longrightarrow>
   Map_get (fold (\<lambda>x m. Map_set m (f x) (g x)) xs m0) (f x) = Some (g x)"
proof (induction xs arbitrary: m0)
  case Nil
  then show ?case by simp
next
  case (Cons y ys)
  show ?case
  proof (cases "x = y")
    case True
    with Cons.prems have "f x \<notin> f ` set ys" by auto
    then show ?thesis using True by (simp add: fold_Map_set_other Map_get_Map_set)
  next
    case False
    with Cons show ?thesis by simp
  qed
qed

lemma filter_unique:
  "distinct (map f xs) \<Longrightarrow> x \<in> set xs \<Longrightarrow> filter (\<lambda>y. f y = f x) xs = [x]"
proof (induction xs)
  case Nil
  then show ?case by simp
next
  case (Cons y ys)
  show ?case
  proof (cases "x = y")
    case True
    with Cons.prems have "f x \<notin> f ` set ys" by auto
    then have "filter (\<lambda>y. f y = f x) ys = []"
      by (simp add: filter_empty_conv) (metis image_eqI)
    with True show ?thesis by simp
  next
    case False
    with Cons.prems have "x \<in> set ys" "f y \<noteq> f x" by auto
    with Cons show ?thesis by simp
  qed
qed

lemma suppliers_agree:
  assumes d: "distinct (map inv_id (invoices L))"
    and i: "ids = [] \<or> hd ids \<in> set (invoiceIds_of L w)"
  shows "supplier_from_query L ids = supplier_from_map (invoiceMap_of L w) ids"
proof (cases ids)
  case Nil
  then show ?thesis by (simp add: supplier_from_query_def supplier_from_map_def)
next
  case (Cons a rest)
  with i have "a \<in> inv_id ` set (select_invoices L w)" by (simp add: invoiceIds_of_def)
  then obtain inv where inv: "inv \<in> set (select_invoices L w)" and a: "a = inv_id inv" by auto
  from inv have invL: "inv \<in> set (invoices L)" by (simp add: select_invoices_def)
  have ds: "distinct (map inv_id (select_invoices L w))"
    unfolding select_invoices_def using d by (rule distinct_map_filter)
  have q: "filter (\<lambda>y. inv_id y = inv_id inv) (invoices L) = [inv]"
    using d invL by (rule filter_unique)
  have m: "Map_get (invoiceMap_of L w) (inv_id inv)
           = Some (if inv_supplier inv = '''' then '''' else inv_supplier inv)"
    unfolding invoiceMap_of_def using ds inv by (rule fold_Map_set_get)
  show ?thesis
    by (simp add: Cons a supplier_from_query_def supplier_from_map_def q m maybeSingle_def)
qed

lemma ids_in_Map_set:
  assumes "ids_in S m" "set (acc_invoiceIds v) \<subseteq> S"
  shows "ids_in S (Map_set m k v)"
  unfolding ids_in_def
proof
  fix kv assume "kv \<in> set (Map_set m k v)"
  with set_Map_set_subset[of m k v] have "kv = (k, v) \<or> kv \<in> set m" by blast
  then show "set (acc_invoiceIds (snd kv)) \<subseteq> S"
    using assms by (auto simp: ids_in_def)
qed

lemma ids_in_get:
  assumes "ids_in S m" "Map_get m k = Some v"
  shows "set (acc_invoiceIds v) \<subseteq> S"
proof -
  from assms(2) have "(k, v) \<in> set m" by (rule Map_get_in_set)
  with assms(1) have "set (acc_invoiceIds (snd (k, v))) \<subseteq> S" unfolding ids_in_def by blast
  then show ?thesis by simp
qed

lemma add_entry_ids_in:
  assumes "ids_in S m" "ii_invoice_id e \<in> S"
  shows "ids_in S (add_entry e m)"
proof -
  let ?key = "batch_key (ii_batch_date e) (ii_unit_price e)"
  let ?m1 = "if \<not> Map_has m ?key
             then Map_set m ?key \<lparr>acc_quantity = 0, acc_price = ii_unit_price e, acc_invoiceIds = []\<rparr>
             else m"
  have m1: "ids_in S ?m1" using assms(1) by (simp add: ids_in_Map_set)
  show ?thesis
  proof (cases "Map_get ?m1 ?key")
    case None
    then show ?thesis using m1 by (simp add: add_entry_def Let_def)
  next
    case (Some c)
    from ids_in_get[OF m1 Some] have "set (acc_invoiceIds c) \<subseteq> S" .
    with assms(2) have "set (Set_add (acc_invoiceIds c) (ii_invoice_id e)) \<subseteq> S"
      by (simp add: Set_add_def)
    with m1 Some show ?thesis by (simp add: add_entry_def Let_def ids_in_Map_set)
  qed
qed

lemma add_transfer_ids_in:
  assumes "ids_in S m"
  shows "ids_in S (add_transfer e m)"
proof -
  let ?key = "batch_key (ti_batch_date e) (ti_unit_price e)"
  let ?m1 = "if \<not> Map_has m ?key
             then Map_set m ?key \<lparr>acc_quantity = 0, acc_price = ti_unit_price e, acc_invoiceIds = []\<rparr>
             else m"
  have m1: "ids_in S ?m1" using assms(1) by (simp add: ids_in_Map_set)
  show ?thesis
  proof (cases "Map_get ?m1 ?key")
    case None
    then show ?thesis using m1 by (simp add: add_transfer_def Let_def)
  next
    case (Some c)
    from ids_in_get[OF m1 Some] have "set (acc_invoiceIds c) \<subseteq> S" .
    with m1 Some show ?thesis by (simp add: add_transfer_def Let_def ids_in_Map_set)
  qed
qed

lemma fold_add_entry_ids_in:
  "ids_in S m \<Longrightarrow> ii_invoice_id ` set es \<subseteq> S \<Longrightarrow> ids_in S (fold add_entry es m)"
  by (induction es arbitrary: m) (simp_all add: add_entry_ids_in)

lemma fold_add_transfer_ids_in: "ids_in S m \<Longrightarrow> ids_in S (fold add_transfer ts m)"
  by (induction ts arbitrary: m) (simp_all add: add_transfer_ids_in)

lemma batchMap_ids_in:
  "ids_in (set (invoiceIds_of L w))
     (batchMap_of (entries_of L w p t) (transferItemsIn_of L w p t))"
proof -
  have "ii_invoice_id ` set (entries_of L w p t) \<subseteq> set (invoiceIds_of L w)"
    by (auto simp: entries_of_def Let_def select_invoice_items_def)
  moreover have "ids_in (set (invoiceIds_of L w)) []" by (simp add: ids_in_def)
  ultimately show ?thesis
    by (simp add: batchMap_of_def fold_add_entry_ids_in fold_add_transfer_ids_in)
qed

lemma emitted_cong:
  assumes h: "\<And>kv. kv \<in> set m \<Longrightarrow> r (acc_invoiceIds (snd kv)) = r' (acc_invoiceIds (snd kv))"
  shows "emitted r E m = emitted r' E m"
proof -
  have e: "emit_one r E kv = emit_one r' E kv" if "kv \<in> set m" for kv
    using h[OF that] by (simp add: emit_one_def)
  have q: "quantity (emit_one r E kv) = quantity (emit_one r' E kv)" for kv
    by (simp add: emit_one_def)
  have "map (emit_one r E) (filter (\<lambda>kv. 0 < quantity (emit_one r' E kv)) m)
        = map (emit_one r' E) (filter (\<lambda>kv. 0 < quantity (emit_one r' E kv)) m)"
    by (rule map_cong) (auto simp: e)
  then show ?thesis by (simp add: emitted_def q)
qed

text \<open>
  Claim C10. On one ledger snapshot (in which invoice identifiers are unique, as the
  primary key of the table makes them) and for the same warehouse, product and category,
  the version with sequential fetches and one invoice query per emitted batch returns
  the same result as the version with parallel fetches and the prefetched invoice map:
  the same \<open>totalQuantity\<close>, the same \<open>totalValue\<close> and the same list of batches in the
  same order, suppliers included.
\<close>

theorem versions_agree:
  assumes "distinct (map inv_id (invoices L))"
  shows "calculateProductStockInWarehouse_seq L w p t = calculateProductStockInWarehouse L w p t"
proof -
  let ?m = "batchMap_of (entries_of L w p t) (transferItemsIn_of L w p t)"
  let ?E = "exitMap_of (stockOutItems_of L w p t) (transferItemsOut_of L w p t)"
  have "supplier_from_query L (acc_invoiceIds (snd kv))
        = supplier_from_map (invoiceMap_of L w) (acc_invoiceIds (snd kv))"
    if kv: "kv \<in> set ?m" for kv
  proof (rule suppliers_agree[OF assms])
    from batchMap_ids_in[of L w p t] kv
    have "set (acc_invoiceIds (snd kv)) \<subseteq> set (invoiceIds_of L w)" by (auto simp: ids_in_def)
    then show "acc_invoiceIds (snd kv) = [] \<or> hd (acc_invoiceIds (snd kv)) \<in> set (invoiceIds_of L w)"
      by (cases "acc_invoiceIds (snd kv)") auto
  qed
  then have "emitted (supplier_from_query L) ?E ?m = emitted (supplier_from_map (invoiceMap_of L w)) ?E ?m"
    by (rule emitted_cong)
  then show ?thesis by (simp add: calc_eq calc_seq_eq)
qed

lemma sample_seq_A: "calculateProductStockInWarehouse_seq sample ''A'' ''P1'' Reagent =
  \<lparr>totalQuantity = 21, totalValue = 110,
   batches = [\<lparr>batch_date = ''2024-02-01'', quantity = 7, unit_price = 5, total_price = 35, supplier = ''Bolt''\<rparr>,
              \<lparr>batch_date = ''2024-01-10'', quantity = 9, unit_price = 5, total_price = 45, supplier = ''Acme''\<rparr>,
              \<lparr>batch_date = ''2024-01-10'', quantity = 5, unit_price = 6, total_price = 30, supplier = ''Acme''\<rparr>]\<rparr>"
  by code_simp

lemma sample_invoice_ids: "map inv_id (invoices sample) = [''INV1'', ''INV2'', ''INV3'']"
  by (simp add: sample_def)

theorem versions_agree_witness:
  "map inv_id (invoices sample) = [''INV1'', ''INV2'', ''INV3'']
   \<and> calculateProductStockInWarehouse_seq sample ''A'' ''P1'' Reagent
       = calculateProductStockInWarehouse sample ''A'' ''P1'' Reagent
   \<and> map supplier (batches (calculateProductStockInWarehouse_seq sample ''A'' ''P1'' Reagent))
       = [''Bolt'', ''Acme'', ''Acme'']"
proof -
  have d: "distinct (map inv_id (invoices sample))" by (simp add: sample_invoice_ids)
  show ?thesis using versions_agree [OF d, of "''A''" "''P1''" Reagent]
    by (simp add: sample_invoice_ids sample_seq_A sample_A)
qed

subsection \<open>Stock-outs tagged as transfers\<close>

lemma calc_cong:
  assumes "invoiceMap_of L w = invoiceMap_of L' w"
    and "entries_of L w p t = entries_of L' w p t"
    and "transferItemsIn_of L w p t = transferItemsIn_of L' w p t"
    and "stockOutItems_of L w p t = stockOutItems_of L' w p t"
    and "transferItemsOut_of L w p t = transferItemsOut_of L' w p t"
  shows "calculateProductStockInWarehouse L w p t = calculateProductStockInWarehouse L' w p t"
  using assms by (simp add: calculateProductStockInWarehouse_def)

lemma stockOutItems_of_eq:
  "stockOutItems_of L w p t =
     filter (\<lambda>x. soi_product_type x = t \<and> soi_product_id x = p
                \<and> soi_stockout_id x \<in> so_id ` set (select_stock_out L w)) (stock_out_items L)"
  by (simp add: stockOutItems_of_def Let_def select_stock_out_items_def)

lemma transferItemsIn_of_eq:
  "transferItemsIn_of L w p t =
     filter (\<lambda>x. ti_product_type x = t \<and> ti_product_id x = p
                \<and> ti_transfer_id x \<in> tr_id ` set (select_transfers_to L w)) (transfer_items L)"
  by (simp add: transferItemsIn_of_def Let_def select_transfer_items_def)

lemma transferItemsOut_of_eq:
  "transferItemsOut_of L w p t =
     filter (\<lambda>x. ti_product_type x = t \<and> ti_product_id x = p
                \<and> ti_transfer_id x \<in> tr_id ` set (select_transfers_from L w)) (transfer_items L)"
  by (simp add: transferItemsOut_of_def Let_def select_transfer_items_def)

lemma entries_of_eq:
  "entries_of L w p t =
     filter (\<lambda>e. ii_product_type e = t \<and> ii_product_id e = p
                \<and> ii_invoice_id e \<in> inv_id ` set (select_invoices L w)) (invoice_items L)"
  by (simp add: entries_of_def Let_def select_invoice_items_def invoiceIds_of_def)

lemma scenario_after_without_calc:
  "calculateProductStockInWarehouse scenario_after_without_stock_out ''W1'' ''P1'' Reagent =
  \<lparr>totalQuantity = 70, totalValue = 350, batches = [\<lparr>batch_date = ''2024-01-10'', quantity = 70, unit_price = 5, total_price = 350, supplier = ''Acme''\<rparr>]\<rparr>"
  by code_simp

lemma scenario_after_retagged_calc:
  "calculateProductStockInWarehouse scenario_after_retagged ''W1'' ''P1'' Reagent =
  \<lparr>totalQuantity = 40, totalValue = 200, batches = [\<lparr>batch_date = ''2024-01-10'', quantity = 40, unit_price = 5, total_price = 200, supplier = ''Acme''\<rparr>]\<rparr>"
  by code_simp

text \<open>
  Claim C2, as stated, fails. After the scenario's transfer, warehouse \<open>W1\<close> has one
  stock-out line (30 units of \<open>P1\<close>) under a stock-out whose reason is \<open>transfer\<close>. The
  computed stock of \<open>P1\<close> at \<open>W1\<close> is 70 with that stock-out and 70 without it, so the line
  does not reduce the stock; and with the reason changed to \<open>consumption\<close> the result is
  40, so the reason tag does change the aggregation.
\<close>

theorem transfer_tagged_line_does_not_reduce:
  "map so_reason (stock_out scenario_after) = [''transfer'']
   \<and> map soi_quantity (stock_out_items scenario_after) = [30]
   \<and> totalQuantity (calculateProductStockInWarehouse scenario_after ''W1'' ''P1'' Reagent) = 70
   \<and> totalQuantity
        (calculateProductStockInWarehouse scenario_after_without_stock_out ''W1'' ''P1'' Reagent) = 70
   \<and> totalQuantity
        (calculateProductStockInWarehouse scenario_after_retagged ''W1'' ''P1'' Reagent) = 40"
proof -
  have "map so_reason (stock_out scenario_after) = [''transfer'']"
    and "map soi_quantity (stock_out_items scenario_after) = [30]"
    by (simp_all add: scenario_after_def)
  then show ?thesis
    by (simp add: scenario_after_W1 scenario_after_without_calc scenario_after_retagged_calc)
qed

text \<open>
  Claim C2, amended. The stock-out lines that enter the decrease aggregation for a
  warehouse are exactly the lines (of the product and category) of the stock-out
  documents of that warehouse whose reason is not \<open>transfer\<close>. Stock-outs with reason
  \<open>transfer\<close> and their lines have no effect on the result: deleting them all leaves
  every computed stock unchanged. Apart from being \<open>transfer\<close> or not, the reason tag has
  no effect: replacing the reasons by others, \<open>transfer\<close> staying \<open>transfer\<close> and nothing
  else becoming \<open>transfer\<close>, leaves every computed stock unchanged.
\<close>

theorem only_non_transfer_stock_outs_count:
  "stockOutItems_of L w p t =
     filter (\<lambda>x. soi_product_type x = t \<and> soi_product_id x = p
                \<and> (\<exists>s \<in> set (stock_out L). so_id s = soi_stockout_id x
                       \<and> so_warehouse_id s = w \<and> so_reason s \<noteq> ''transfer''))
       (stock_out_items L)
   \<and> calculateProductStockInWarehouse
       (L\<lparr>stock_out := filter (\<lambda>s. so_reason s \<noteq> ''transfer'') (stock_out L),
          stock_out_items :=
            filter (\<lambda>x. \<exists>s \<in> set (stock_out L).
                          so_id s = soi_stockout_id x \<and> so_reason s \<noteq> ''transfer'')
              (stock_out_items L)\<rparr>) w p t
     = calculateProductStockInWarehouse L w p t
   \<and> ((\<forall>s \<in> set (stock_out L). (f s = ''transfer'') = (so_reason s = ''transfer''))
      \<longrightarrow> calculateProductStockInWarehouse
            (L\<lparr>stock_out := map (\<lambda>s. s\<lparr>so_reason := f s\<rparr>) (stock_out L)\<rparr>) w p t
          = calculateProductStockInWarehouse L w p t)"
proof -
  have 1: "stockOutItems_of L w p t =
     filter (\<lambda>x. soi_product_type x = t \<and> soi_product_id x = p
                \<and> (\<exists>s \<in> set (stock_out L). so_id s = soi_stockout_id x
                       \<and> so_warehouse_id s = w \<and> so_reason s \<noteq> ''transfer''))
       (stock_out_items L)"
    unfolding stockOutItems_of_eq
    by (rule filter_cong) (auto simp: select_stock_out_def image_iff)
  let ?L1 = "L\<lparr>stock_out := filter (\<lambda>s. so_reason s \<noteq> ''transfer'') (stock_out L),
          stock_out_items :=
            filter (\<lambda>x. \<exists>s \<in> set (stock_out L).
                          so_id s = soi_stockout_id x \<and> so_reason s \<noteq> ''transfer'')
              (stock_out_items L)\<rparr>"
  have s1: "select_stock_out ?L1 w = select_stock_out L w"
    by (simp add: select_stock_out_def) (rule filter_cong, auto)
  have "stockOutItems_of ?L1 w p t = stockOutItems_of L w p t"
    unfolding stockOutItems_of_eq s1
    by (simp, rule filter_cong) (auto simp: select_stock_out_def image_iff)
  then have 2: "calculateProductStockInWarehouse ?L1 w p t = calculateProductStockInWarehouse L w p t"
    by (intro calc_cong)
       (simp_all add: invoiceMap_of_def select_invoices_def entries_of_eq
          transferItemsIn_of_eq transferItemsOut_of_eq select_transfers_to_def
          select_transfers_from_def)
  have 3: "calculateProductStockInWarehouse
            (L\<lparr>stock_out := map (\<lambda>s. s\<lparr>so_reason := f s\<rparr>) (stock_out L)\<rparr>) w p t
          = calculateProductStockInWarehouse L w p t"
    if h: "\<forall>s \<in> set (stock_out L). (f s = ''transfer'') = (so_reason s = ''transfer'')"
  proof -
    let ?L2 = "L\<lparr>stock_out := map (\<lambda>s. s\<lparr>so_reason := f s\<rparr>) (stock_out L)\<rparr>"
    have "select_stock_out ?L2 w = map (\<lambda>s. s\<lparr>so_reason := f s\<rparr>) (select_stock_out L w)"
      using h by (simp add: select_stock_out_def filter_map comp_def cong: filter_cong)
    then have "so_id ` set (select_stock_out ?L2 w) = so_id ` set (select_stock_out L w)"
      by (simp add: image_image)
    then have "stockOutItems_of ?L2 w p t = stockOutItems_of L w p t"
      unfolding stockOutItems_of_eq by simp
    then show ?thesis
      by (intro calc_cong)
         (simp_all add: invoiceMap_of_def select_invoices_def entries_of_eq
            transferItemsIn_of_eq transferItemsOut_of_eq select_transfers_to_def
            select_transfers_from_def)
  qed
  from 1 2 3 show ?thesis by blast
qed

theorem only_non_transfer_stock_outs_count_witness:
  "map so_reason (stock_out sample) = [''consumption'', ''transfer'']
   \<and> map soi_quantity (stockOutItems_of sample ''A'' ''P1'' Reagent) = [3]
   \<and> calculateProductStockInWarehouse
       (sample\<lparr>stock_out := map (\<lambda>s. s\<lparr>so_reason :=
                   (if so_reason s = ''transfer'' then ''transfer'' else ''inventory_loss'')\<rparr>)
                 (stock_out sample)\<rparr>) ''A'' ''P1'' Reagent
     = calculateProductStockInWarehouse sample ''A'' ''P1'' Reagent"
  using only_non_transfer_stock_outs_count
    [of sample "''A''" "''P1''" Reagent
        "\<lambda>s. if so_reason s = ''transfer'' then ''transfer'' else ''inventory_loss''"]
  by (simp add: sample_def)

subsection \<open>The example scenario\<close>

text \<open>
  Claim C5, as stated, fails in one point: the transfer line the form writes carries the
  batch date of the row it was taken from, 2024-01-10, not the transfer date 2024-01-15,
  and so the single batch of \<open>W2\<close> is dated 2024-01-10.
\<close>

theorem scenario_transfer_line_keeps_batch_date:
  "handleSubmit scenario ''W1'' ''W2'' ''2024-01-15'' scenario_rows answers_ok = Inr scenario_after
   \<and> map ti_batch_date (transfer_items scenario_after) = [''2024-01-10'']
   \<and> map ti_batch_date (transfer_items scenario_after) \<noteq> [''2024-01-15'']
   \<and> map batch_date (batches (calculateProductStockInWarehouse scenario_after ''W2'' ''P1'' Reagent))
       = [''2024-01-10'']
   \<and> map batch_date (batches (calculateProductStockInWarehouse scenario_after ''W2'' ''P1'' Reagent))
       \<noteq> [''2024-01-15'']"
proof -
  have "map ti_batch_date (transfer_items scenario_after) = [''2024-01-10'']"
    by (simp add: scenario_after_def)
  then show ?thesis by (simp add: scenario_submit scenario_after_W2)
qed

text \<open>
  Claim C5, amended. In the example scenario (\<open>W1\<close> holds 100 units of \<open>P1\<close> from one active
  invoice line with batch date 2024-01-10 and unit price 5), the form, after the row is
  ticked and 30 is typed, dispatches a transfer from \<open>W1\<close> to \<open>W2\<close> dated 2024-01-15 that
  writes one transfer line and one stock-out line at \<open>W1\<close> (reason \<open>transfer\<close>), both with
  the original batch date 2024-01-10, quantity 30 and price 5. Afterwards the computed
  stock of \<open>P1\<close> is 70 at \<open>W1\<close> and 30 at \<open>W2\<close>, the latter as a single batch dated 2024-01-10
  at price 5.
\<close>

theorem scenario_transfer_result:
  "calculateProductStockInWarehouse scenario ''W1'' ''P1'' Reagent
     = \<lparr>totalQuantity = 100, totalValue = 500,
        batches = [\<lparr>batch_date = ''2024-01-10'', quantity = 100, unit_price = 5,
                    total_price = 500, supplier = ''Acme''\<rparr>]\<rparr>
   \<and> handleSubmit scenario ''W1'' ''W2'' ''2024-01-15'' scenario_rows answers_ok = Inr scenario_after
   \<and> transfers scenario_after
       = [\<lparr>tr_id = ''T1'', tr_from_warehouse_id = ''W1'', tr_to_warehouse_id = ''W2'',
           tr_date = ''2024-01-15'', tr_total_amount = 150\<rparr>]
   \<and> transfer_items scenario_after
       = [\<lparr>ti_transfer_id = ''T1'', ti_product_type = Reagent, ti_product_id = ''P1'',
           ti_batch_date = ''2024-01-10'', ti_quantity = 30, ti_unit_price = 5,
           ti_total_price = 150\<rparr>]
   \<and> stock_out scenario_after
       = [\<lparr>so_id = ''SO1'', so_warehouse_id = ''W1'', so_date = ''2024-01-15'',
           so_reason = ''transfer'', so_total_amount = 150, so_transfer_id = Some ''T1''\<rparr>]
   \<and> stock_out_items scenario_after
       = [\<lparr>soi_stockout_id = ''SO1'', soi_product_type = Reagent, soi_product_id = ''P1'',
           soi_batch_date = ''2024-01-10'', soi_quantity = 30, soi_unit_price = 5,
           soi_total_price = 150\<rparr>]
   \<and> totalQuantity (calculateProductStockInWarehouse scenario_after ''W1'' ''P1'' Reagent) = 70
   \<and> calculateProductStockInWarehouse scenario_after ''W2'' ''P1'' Reagent
       = \<lparr>totalQuantity = 30, totalValue = 150,
          batches = [\<lparr>batch_date = ''2024-01-10'', quantity = 30, unit_price = 5,
                      total_price = 150, supplier = ''''\<rparr>]\<rparr>"
proof -
  have "transfers scenario_after
       = [\<lparr>tr_id = ''T1'', tr_from_warehouse_id = ''W1'', tr_to_warehouse_id = ''W2'',
           tr_date = ''2024-01-15'', tr_total_amount = 150\<rparr>]"
    and "transfer_items scenario_after
       = [\<lparr>ti_transfer_id = ''T1'', ti_product_type = Reagent, ti_product_id = ''P1'',
           ti_batch_date = ''2024-01-10'', ti_quantity = 30, ti_unit_price = 5,
           ti_total_price = 150\<rparr>]"
    and "stock_out scenario_after
       = [\<lparr>so_id = ''SO1'', so_warehouse_id = ''W1'', so_date = ''2024-01-15'',
           so_reason = ''transfer'', so_total_amount = 150, so_transfer_id = Some ''T1''\<rparr>]"
    and "stock_out_items scenario_after
       = [\<lparr>soi_stockout_id = ''SO1'', soi_product_type = Reagent, soi_product_id = ''P1'',
           soi_batch_date = ''2024-01-10'', soi_quantity = 30, soi_unit_price = 5,
           soi_total_price = 150\<rparr>]"
    by (simp_all add: scenario_after_def)
  then show ?thesis by (simp add: scenario_W1 scenario_submit scenario_after_W1 scenario_after_W2)
qed

theorem scenario_transfer_result_witness:
  "totalQuantity (calculateProductStockInWarehouse scenario_after ''W1'' ''P1'' Reagent) = 100 - 30
   \<and> totalQuantity (calculateProductStockInWarehouse scenario_after ''W2'' ''P1'' Reagent) = 30"
  using scenario_transfer_result by simp

section \<open>Totals and the ledger events\<close>

subsection \<open>The total as a sum over the buckets\<close>



subsection \<open>Sums grouped by a key\<close>











subsection \<open>The transfer form\<close>


lemma two_prices_rows_eq: "map (\<lambda>r. (row_batch_date r, row_unit_price r, row_quantity r, row_selected r, row_transfer_quantity r)) two_prices_rows
  = [(''2024-01-10'', 5, 10, True, 4), (''2024-01-10'', 6, 10, False, 0)]"
  by code_simp



lemma two_prices_after_W2: "totalQuantity (calculateProductStockInWarehouse two_prices_after ''W2'' ''P1'' Reagent) = 4"
  by code_simp















end
